theory Spec2Isabelle
  imports Complex_Main "HOL-Library.Word"
begin

unbundle bit_operations_syntax

section \<open>Data model of the health watch (DcgmHealthWatch.cpp)\<close>

text \<open>
  The embedding follows \<^verbatim>\<open>DcgmHealthWatch.cpp\<close> function by function and keeps its names.
  \<^item> \<^verbatim>\<open>long long\<close>, \<^verbatim>\<open>int64_t\<close> and \<^verbatim>\<open>timelib64_t\<close> are 64-bit words read through \<open>sint\<close>;
    \<^verbatim>\<open>int\<close> and \<^verbatim>\<open>unsigned int\<close> are 32-bit words. Arithmetic wraps, as the compiled code
    does; a theorem that needs the absence of signed overflow says so in a hypothesis.
  \<^item> \<^verbatim>\<open>double\<close> is idealised as \<open>real\<close>: no rounding, and division by zero written out.
  \<^item> The mutex is not modelled: every operation runs to completion on the state it is given.
  \<^item> The calls into \<^verbatim>\<open>mpCoreProxy\<close> and the clock are the environment, a record of functions.
\<close>

type_synonym int64 = "64 word"
type_synonym uint32 = "32 word"

datatype dcgmReturn_t =
    DCGM_ST_OK
  | DCGM_ST_BADPARAM
  | DCGM_ST_NO_DATA
  | DCGM_ST_NOT_WATCHED
  | DCGM_ST_OTHER int  \<comment> \<open>every other status code of the enum, by its number\<close>

datatype dcgm_field_entity_group_t =
    DCGM_FE_GPU
  | DCGM_FE_VGPU
  | DCGM_FE_SWITCH
  | DCGM_FE_GPU_I
  | DCGM_FE_GPU_CI
  | DCGM_FE_LINK
  | DCGM_FE_CPU

type_synonym dcgmGroupEntityPair_t = "dcgm_field_entity_group_t \<times> nat"

datatype dcgm_field_id =
    DCGM_FI_DEV_PCIE_REPLAY_COUNTER
  | DCGM_FI_DEV_ECC_DBE_VOL_TOTAL
  | DCGM_FI_DEV_RETIRED_SBE
  | DCGM_FI_DEV_RETIRED_DBE
  | DCGM_FI_DEV_RETIRED_PENDING
  | DCGM_FI_DEV_XID_ERRORS
  | DCGM_FI_DEV_ROW_REMAP_FAILURE
  | DCGM_FI_DEV_INFOROM_CONFIG_VALID
  | DCGM_FI_DEV_THERMAL_VIOLATION
  | DCGM_FI_DEV_POWER_VIOLATION
  | DCGM_FI_DEV_POWER_USAGE
  | DCGM_FI_DEV_CPU_TEMP_CURRENT
  | DCGM_FI_DEV_CPU_TEMP_WARNING
  | DCGM_FI_DEV_CPU_TEMP_CRITICAL
  | DCGM_FI_DEV_CPU_POWER_UTIL_CURRENT
  | DCGM_FI_DEV_CPU_POWER_LIMIT
  | DCGM_FI_DEV_NVLINK_CRC_FLIT_ERROR_COUNT_TOTAL
  | DCGM_FI_DEV_NVLINK_CRC_DATA_ERROR_COUNT_TOTAL
  | DCGM_FI_DEV_NVLINK_REPLAY_ERROR_COUNT_TOTAL
  | DCGM_FI_DEV_NVLINK_RECOVERY_ERROR_COUNT_TOTAL
  | DCGM_FI_DEV_NVSWITCH_NON_FATAL_ERRORS
  | DCGM_FI_DEV_NVSWITCH_FATAL_ERRORS
  | DCGM_FI_OTHER nat  \<comment> \<open>any other field of the catalogue\<close>

datatype dcgmOrder_t = DCGM_ORDER_ASCENDING | DCGM_ORDER_DESCENDING

datatype dcgmNvLinkLinkState_t = DcgmNvLinkLinkStateDown | DcgmNvLinkLinkStateNotDown

datatype dcgmHealthSystems_enum =
    DCGM_HEALTH_WATCH_PCIE
  | DCGM_HEALTH_WATCH_NVLINK
  | DCGM_HEALTH_WATCH_PMU
  | DCGM_HEALTH_WATCH_MCU
  | DCGM_HEALTH_WATCH_MEM
  | DCGM_HEALTH_WATCH_SM
  | DCGM_HEALTH_WATCH_INFOROM
  | DCGM_HEALTH_WATCH_THERMAL
  | DCGM_HEALTH_WATCH_POWER
  | DCGM_HEALTH_WATCH_DRIVER
  | DCGM_HEALTH_WATCH_NVSWITCH_NONFATAL
  | DCGM_HEALTH_WATCH_NVSWITCH_FATAL

datatype dcgmHealthWatchResults_t =
    DCGM_HEALTH_RESULT_PASS
  | DCGM_HEALTH_RESULT_WARN
  | DCGM_HEALTH_RESULT_FAIL

datatype dcgmError_t =
    DCGM_FR_PCI_REPLAY_RATE
  | DCGM_FR_VOLATILE_DBE_DETECTED
  | DCGM_FR_PENDING_PAGE_RETIREMENTS
  | DCGM_FR_RETIRED_PAGES_LIMIT
  | DCGM_FR_RETIRED_PAGES_DBE_LIMIT
  | DCGM_FR_ROW_REMAP_FAILURE
  | DCGM_FR_UNCONTAINED_ERROR
  | DCGM_FR_CORRUPT_INFOROM
  | DCGM_FR_CLOCK_THROTTLE_THERMAL
  | DCGM_FR_POWER_UNREADABLE
  | DCGM_FR_CLOCK_THROTTLE_POWER
  | DCGM_FR_FIELD_THRESHOLD_DBL
  | DCGM_FR_NVLINK_ERROR_CRITICAL
  | DCGM_FR_NVLINK_CRC_ERROR_THRESHOLD
  | DCGM_FR_NVLINK_ERROR_THRESHOLD
  | DCGM_FR_NVLINK_DOWN
  | DCGM_FR_NVSWITCH_FATAL_ERROR
  | DCGM_FR_NVSWITCH_NON_FATAL_ERROR

text \<open>
  A sample as the evaluators read it: \<^verbatim>\<open>dcgmcm_sample_t.val\<close> is a union, of which the code
  reads the integer view \<^verbatim>\<open>val.i64\<close> and the floating-point view \<^verbatim>\<open>val.d\<close>. Both views are
  supplied by the sample store. \<open>zero_sample\<close> is the buffer after \<^verbatim>\<open>= {}\<close>.
\<close>

record dcgmcm_sample_t =
  val_i64 :: int64
  val_d :: real

definition zero_sample :: dcgmcm_sample_t where
  "zero_sample = \<lparr>val_i64 = 0, val_d = 0\<rparr>"

text \<open>
  One incident of \<^verbatim>\<open>DcgmHealthResponse\<close>: the arguments of \<^verbatim>\<open>AddIncident\<close>. Of the
  \<^verbatim>\<open>DcgmError\<close> the error code is kept; the formatted message text is built by macros of
  \<^verbatim>\<open>dcgm_errors.h\<close> and is left out.
\<close>

record dcgmIncidentInfo_t =
  incSystem :: dcgmHealthSystems_enum
  incHealth :: dcgmHealthWatchResults_t
  incCode :: dcgmError_t
  incEntityGroupId :: dcgm_field_entity_group_t
  incEntityId :: nat

type_synonym DcgmHealthResponse = "dcgmIncidentInfo_t list"

text \<open>
  The arguments of one \<^verbatim>\<open>AddFieldWatch\<close> call: entity group, entity id, field, update
  interval (usec), maximum keep age (s), watcher (the connection id of a health watcher) and
  the subscribe-for-updates flag.
\<close>

datatype watch_request =
  WatchRequest dcgm_field_entity_group_t nat dcgm_field_id int64 real nat bool

text \<open>
  The constants, enum values and macros of \<^verbatim>\<open>dcgm_structs.h\<close> and \<^verbatim>\<open>dcgm_fields.h\<close> that the
  code uses. The headers are not part of the sources at hand, so they are a parameter \<open>K\<close> of
  every function that uses one. \<open>health_bit\<close> is the numeric value of an enumerator of
  \<^verbatim>\<open>dcgmHealthSystems_t\<close>.
\<close>

record dcgm_consts =
  health_bit :: "dcgmHealthSystems_enum \<Rightarrow> uint32"
  DCGM_HEALTH_WATCH_COUNT_V1 :: nat
  DCGM_HEALTH_WATCH_COUNT_V2 :: nat
  DCGM_MAX_NUM_DEVICES :: nat
  DCGM_LIMIT_MAX_PCIREPLAY_RATE :: "32 word"
  DCGM_LIMIT_MAX_RETIRED_PAGES :: int64
  DCGM_LIMIT_MAX_RETIRED_PAGES_SOFT_LIMIT :: int64
  DCGM_LIMIT_MAX_NVLINK_ERROR :: int64
  DCGM_LIMIT_MAX_NVLINK_CRC_ERROR :: real
  DCGM_INT64_IS_BLANK :: "int64 \<Rightarrow> bool"
  DCGM_INT64_NOT_SUPPORTED :: int64
  DCGM_FP64_IS_BLANK :: "real \<Rightarrow> bool"
  DCGM_FP64_NOT_SUPPORTED :: real
  DCGM_NVLINK_MAX_LINKS_PER_GPU :: nat
  DCGM_NVLINK_MAX_LINKS_PER_NVSWITCH :: nat

text \<open>
  The environment: the core proxy and the clock. \<open>GetSamples\<close> and \<open>GetLatestSample\<close> answer
  with a status and, when they wrote the caller's buffer, the sample written (\<open>None\<close> leaves
  the buffer as it was). \<open>GetEntityNvLinkLinkStatus\<close> fills an array, read by index.
\<close>

record DcgmCoreProxy =
  GetGroupEntities :: "nat \<Rightarrow> dcgmReturn_t \<times> dcgmGroupEntityPair_t list"
  AddFieldWatch :: "watch_request \<Rightarrow> dcgmReturn_t"
  UpdateAllFields :: "int \<Rightarrow> dcgmReturn_t"
  GetSamples :: "dcgm_field_entity_group_t \<Rightarrow> nat \<Rightarrow> dcgm_field_id \<Rightarrow> int64 \<Rightarrow> int64
                  \<Rightarrow> dcgmOrder_t \<Rightarrow> dcgmReturn_t \<times> dcgmcm_sample_t option"
  GetLatestSample :: "dcgm_field_entity_group_t \<Rightarrow> nat \<Rightarrow> dcgm_field_id
                  \<Rightarrow> dcgmReturn_t \<times> dcgmcm_sample_t option"
  GetEntityNvLinkLinkStatus :: "dcgm_field_entity_group_t \<Rightarrow> nat
                  \<Rightarrow> dcgmReturn_t \<times> (nat \<Rightarrow> dcgmNvLinkLinkState_t)"
  timelib_usecSince1970 :: int64

text \<open>The members of the class that the operations read and write.\<close>

record DcgmHealthWatch =
  mGroupWatchState :: "nat \<rightharpoonup> uint32"
  m_gpuHadUncontainedErrorXid :: "nat set"

text \<open>One buffered field value of an update batch (\<^verbatim>\<open>dcgmBufferedFv_t\<close>).\<close>

record dcgmBufferedFv_t =
  fvEntityGroupId :: dcgm_field_entity_group_t
  fvEntityId :: nat
  fvFieldId :: dcgm_field_id
  fvValue_i64 :: int64

section \<open>Helpers shared by the evaluators\<close>

text \<open>A proxy call on a buffer: the status, and the buffer after the call.\<close>

definition read_sample ::
  "dcgmcm_sample_t \<Rightarrow> dcgmReturn_t \<times> dcgmcm_sample_t option \<Rightarrow> dcgmReturn_t \<times> dcgmcm_sample_t" where
  "read_sample buf r = (fst r, case snd r of None \<Rightarrow> buf | Some s \<Rightarrow> s)"

text \<open>\<^verbatim>\<open>(a >= b) ? (a - b) : (b - a)\<close> on \<^verbatim>\<open>long long\<close>.\<close>

definition abs_diff64 :: "int64 \<Rightarrow> int64 \<Rightarrow> int64" where
  "abs_diff64 a b = (if sint b \<le> sint a then a - b else b - a)"

definition oneMinuteInUsec :: int64 where
  "oneMinuteInUsec = 60000000"

definition oneWeekInUsec :: int64 where
  "oneWeekInUsec = 604800000000"

text \<open>
  \<^verbatim>\<open>x / y >= c\<close> on doubles: a zero divisor gives plus infinity for a positive \<open>x\<close>,
  minus infinity for a negative one and NaN for zero, and only the first compares true.
\<close>

definition fp_div_ge :: "real \<Rightarrow> real \<Rightarrow> real \<Rightarrow> bool" where
  "fp_div_ge x y c = (if y = 0 then 0 < x else c \<le> x / y)"

definition FitsGpuHardwareCheck :: "dcgm_field_entity_group_t \<Rightarrow> bool" where
  "FitsGpuHardwareCheck entityGroup =
     (entityGroup = DCGM_FE_GPU \<or> entityGroup = DCGM_FE_GPU_I \<or> entityGroup = DCGM_FE_GPU_CI)"

definition SetResponse ::
  "dcgm_field_entity_group_t \<Rightarrow> nat \<Rightarrow> dcgmHealthWatchResults_t \<Rightarrow> dcgmHealthSystems_enum
     \<Rightarrow> dcgmError_t \<Rightarrow> DcgmHealthResponse \<Rightarrow> DcgmHealthResponse" where
  "SetResponse entityGroup eid status system d response =
     response @ [\<lparr>incSystem = system, incHealth = status, incCode = d,
                  incEntityGroupId = entityGroup, incEntityId = eid\<rparr>]"

section \<open>The evaluators\<close>

text \<open>
  The start of the window as the evaluators with a window set it:
  \<^verbatim>\<open>if (!startTime) startTime = now - oneMinuteInUsec;\<close>
\<close>

definition UpdateStartTime :: "DcgmCoreProxy \<Rightarrow> int64 \<Rightarrow> int64" where
  "UpdateStartTime p startTime =
     (if startTime = 0 then timelib_usecSince1970 p - oneMinuteInUsec else startTime)"

definition MonitorPcie ::
  "dcgm_consts \<Rightarrow> DcgmCoreProxy \<Rightarrow> dcgm_field_entity_group_t \<Rightarrow> nat \<Rightarrow> int64 \<Rightarrow> int64
     \<Rightarrow> DcgmHealthResponse \<Rightarrow> dcgmReturn_t \<times> DcgmHealthResponse" where
  "MonitorPcie K p entityGroup eid startTime0 endTime response =
    (let fieldId = DCGM_FI_DEV_PCIE_REPLAY_COUNTER;
         startTime = UpdateStartTime p startTime0
     in case read_sample zero_sample
               (GetSamples p entityGroup eid fieldId startTime endTime DCGM_ORDER_ASCENDING) of
        (ret, startValue) \<Rightarrow>
          if ret = DCGM_ST_NO_DATA then (DCGM_ST_OK, response)
          else if ret = DCGM_ST_NOT_WATCHED then (DCGM_ST_OK, response)
          else if ret \<noteq> DCGM_ST_OK then (ret, response)
          else if DCGM_INT64_IS_BLANK K (val_i64 startValue) then (DCGM_ST_OK, response)
          else
            (case read_sample zero_sample
                    (GetSamples p entityGroup eid fieldId startTime endTime DCGM_ORDER_DESCENDING) of
             (ret, endValue) \<Rightarrow>
               if ret = DCGM_ST_NO_DATA then (DCGM_ST_OK, response)
               else if ret = DCGM_ST_NOT_WATCHED then (DCGM_ST_OK, response)
               else if ret \<noteq> DCGM_ST_OK then (ret, response)
               else if DCGM_INT64_IS_BLANK K (val_i64 endValue) then (DCGM_ST_OK, response)
               else
                 (let pciReplayRate = (ucast (abs_diff64 (val_i64 startValue) (val_i64 endValue)) :: 32 word)
                  in if sint (DCGM_LIMIT_MAX_PCIREPLAY_RATE K) < sint pciReplayRate
                     then (DCGM_ST_OK,
                           SetResponse entityGroup eid DCGM_HEALTH_RESULT_WARN DCGM_HEALTH_WATCH_PCIE
                             DCGM_FR_PCI_REPLAY_RATE response)
                     else (DCGM_ST_OK, response))))"

definition MonitorMemVolatileDbes ::
  "dcgm_consts \<Rightarrow> DcgmCoreProxy \<Rightarrow> dcgm_field_entity_group_t \<Rightarrow> nat \<Rightarrow> int64 \<Rightarrow> int64
     \<Rightarrow> DcgmHealthResponse \<Rightarrow> dcgmReturn_t \<times> DcgmHealthResponse" where
  "MonitorMemVolatileDbes K p entityGroup eid startTime endTime response =
    (case read_sample zero_sample
            (GetSamples p entityGroup eid DCGM_FI_DEV_ECC_DBE_VOL_TOTAL startTime endTime
               DCGM_ORDER_DESCENDING) of
     (ret, sample) \<Rightarrow>
       if ret \<noteq> DCGM_ST_OK \<and> ret \<noteq> DCGM_ST_NO_DATA \<and> ret \<noteq> DCGM_ST_NOT_WATCHED
       then (ret, response)
       else if DCGM_INT64_IS_BLANK K (val_i64 sample) then (DCGM_ST_OK, response)
       else if 0 < sint (val_i64 sample)
       then (DCGM_ST_OK,
             SetResponse entityGroup eid DCGM_HEALTH_RESULT_FAIL DCGM_HEALTH_WATCH_MEM
               DCGM_FR_VOLATILE_DBE_DETECTED response)
       else (DCGM_ST_OK, response))"

definition MonitorMemRetiredPending ::
  "dcgm_consts \<Rightarrow> DcgmCoreProxy \<Rightarrow> dcgm_field_entity_group_t \<Rightarrow> nat \<Rightarrow> int64 \<Rightarrow> int64
     \<Rightarrow> DcgmHealthResponse \<Rightarrow> dcgmReturn_t \<times> DcgmHealthResponse" where
  "MonitorMemRetiredPending K p entityGroup eid startTime endTime response =
    (case read_sample zero_sample
            (GetSamples p entityGroup eid DCGM_FI_DEV_RETIRED_PENDING startTime endTime
               DCGM_ORDER_DESCENDING) of
     (ret, retiredPending) \<Rightarrow>
       if ret \<noteq> DCGM_ST_OK \<and> ret \<noteq> DCGM_ST_NO_DATA \<and> ret \<noteq> DCGM_ST_NOT_WATCHED
       then (ret, response)
       else if \<not> DCGM_INT64_IS_BLANK K (val_i64 retiredPending) \<and> val_i64 retiredPending \<noteq> 0
       then (DCGM_ST_OK,
             SetResponse entityGroup eid DCGM_HEALTH_RESULT_WARN DCGM_HEALTH_WATCH_MEM
               DCGM_FR_PENDING_PAGE_RETIREMENTS response)
       else (DCGM_ST_OK, response))"

text \<open>
  The retired-pages sub-check. Its first two exits and the exit after the cap incident return
  the local \<^verbatim>\<open>ret\<close>, which at the cap holds the status of the SBE query; the exit on a failed
  week-old query returns \<^verbatim>\<open>ret\<close> too, not \<^verbatim>\<open>localReturn\<close>.
\<close>

definition MonitorMemSbeDbeRetiredPages ::
  "dcgm_consts \<Rightarrow> DcgmCoreProxy \<Rightarrow> dcgm_field_entity_group_t \<Rightarrow> nat \<Rightarrow> int64 \<Rightarrow> int64
     \<Rightarrow> DcgmHealthResponse \<Rightarrow> dcgmReturn_t \<times> DcgmHealthResponse" where
  "MonitorMemSbeDbeRetiredPages K p entityGroup eid startTime endTime response =
    (case read_sample zero_sample
            (GetSamples p entityGroup eid DCGM_FI_DEV_RETIRED_DBE startTime endTime
               DCGM_ORDER_DESCENDING) of
     (ret, dbeRetiredPage) \<Rightarrow>
       if ret \<noteq> DCGM_ST_OK \<and> ret \<noteq> DCGM_ST_NO_DATA \<and> ret \<noteq> DCGM_ST_NOT_WATCHED
       then (ret, response)
       else
        (case read_sample zero_sample
                (GetSamples p entityGroup eid DCGM_FI_DEV_RETIRED_SBE startTime endTime
                   DCGM_ORDER_DESCENDING) of
         (ret, sbeRetiredPage) \<Rightarrow>
           if ret \<noteq> DCGM_ST_OK \<and> ret \<noteq> DCGM_ST_NO_DATA \<and> ret \<noteq> DCGM_ST_NOT_WATCHED
           then (ret, response)
           else
            (let totalRetiredPages0 = (0 :: int64);
                 totalRetiredPages1 =
                   (if \<not> DCGM_INT64_IS_BLANK K (val_i64 sbeRetiredPage)
                    then totalRetiredPages0 + val_i64 sbeRetiredPage else totalRetiredPages0);
                 totalRetiredPages =
                   (if \<not> DCGM_INT64_IS_BLANK K (val_i64 dbeRetiredPage)
                    then totalRetiredPages1 + val_i64 dbeRetiredPage else totalRetiredPages1)
             in if sint (DCGM_LIMIT_MAX_RETIRED_PAGES K) \<le> sint totalRetiredPages
                then (ret,
                      SetResponse entityGroup eid DCGM_HEALTH_RESULT_FAIL DCGM_HEALTH_WATCH_MEM
                        DCGM_FR_RETIRED_PAGES_LIMIT response)
                else if \<not> DCGM_INT64_IS_BLANK K (val_i64 dbeRetiredPage)
                        \<and> sint (DCGM_LIMIT_MAX_RETIRED_PAGES_SOFT_LIMIT K) < sint (val_i64 dbeRetiredPage)
                then
                 (let now = timelib_usecSince1970 p
                  in case read_sample zero_sample
                            (GetSamples p entityGroup eid DCGM_FI_DEV_RETIRED_DBE 0
                               (now - oneWeekInUsec) DCGM_ORDER_DESCENDING) of
                     (localReturn, oneWeekAgoDbeRetiredPages) \<Rightarrow>
                       if localReturn \<noteq> DCGM_ST_OK \<and> localReturn \<noteq> DCGM_ST_NO_DATA
                       then (ret, response)
                       else if DCGM_INT64_IS_BLANK K (val_i64 oneWeekAgoDbeRetiredPages)
                       then (DCGM_ST_OK, response)
                       else
                        (let dbePagesRetiredThisWeek =
                               val_i64 dbeRetiredPage - val_i64 oneWeekAgoDbeRetiredPages
                         in if 1 < sint dbePagesRetiredThisWeek
                            then (DCGM_ST_OK,
                                  SetResponse entityGroup eid DCGM_HEALTH_RESULT_FAIL
                                    DCGM_HEALTH_WATCH_MEM DCGM_FR_RETIRED_PAGES_DBE_LIMIT response)
                            else (DCGM_ST_OK, response)))
                else (DCGM_ST_OK, response))))"

definition MonitorMemRowRemapFailures ::
  "dcgm_consts \<Rightarrow> DcgmCoreProxy \<Rightarrow> dcgm_field_entity_group_t \<Rightarrow> nat \<Rightarrow> int64 \<Rightarrow> int64
     \<Rightarrow> DcgmHealthResponse \<Rightarrow> dcgmReturn_t \<times> DcgmHealthResponse" where
  "MonitorMemRowRemapFailures K p entityGroup eid startTime endTime response =
    (case read_sample zero_sample
            (GetSamples p entityGroup eid DCGM_FI_DEV_ROW_REMAP_FAILURE startTime endTime
               DCGM_ORDER_DESCENDING) of
     (ret, sample) \<Rightarrow>
       if ret \<noteq> DCGM_ST_OK \<and> ret \<noteq> DCGM_ST_NO_DATA \<and> ret \<noteq> DCGM_ST_NOT_WATCHED
       then (ret, response)
       else if DCGM_INT64_IS_BLANK K (val_i64 sample) then (DCGM_ST_OK, response)
       else if 0 < sint (val_i64 sample)
       then (DCGM_ST_OK,
             SetResponse entityGroup eid DCGM_HEALTH_RESULT_FAIL DCGM_HEALTH_WATCH_MEM
               DCGM_FR_ROW_REMAP_FAILURE response)
       else (DCGM_ST_OK, response))"

definition MonitorUncontainedErrors ::
  "DcgmHealthWatch \<Rightarrow> dcgm_field_entity_group_t \<Rightarrow> nat \<Rightarrow> int64 \<Rightarrow> int64
     \<Rightarrow> DcgmHealthResponse \<Rightarrow> dcgmReturn_t \<times> DcgmHealthResponse" where
  "MonitorUncontainedErrors hw entityGroup eid startTime endTime response =
    (if entityGroup \<noteq> DCGM_FE_GPU then (DCGM_ST_OK, response)
     else if eid \<notin> m_gpuHadUncontainedErrorXid hw then (DCGM_ST_OK, response)
     else (DCGM_ST_OK,
           SetResponse entityGroup eid DCGM_HEALTH_RESULT_FAIL DCGM_HEALTH_WATCH_MEM
             DCGM_FR_UNCONTAINED_ERROR response))"

text \<open>
  \<^verbatim>\<open>MonitorMem\<close> runs its five sub-checks one after the other on the same response; a
  non-success status of a sub-check replaces the status kept so far.
\<close>

definition MonitorMem ::
  "dcgm_consts \<Rightarrow> DcgmCoreProxy \<Rightarrow> DcgmHealthWatch \<Rightarrow> dcgm_field_entity_group_t \<Rightarrow> nat
     \<Rightarrow> int64 \<Rightarrow> int64 \<Rightarrow> DcgmHealthResponse \<Rightarrow> dcgmReturn_t \<times> DcgmHealthResponse" where
  "MonitorMem K p hw entityGroup eid startTime0 endTime response0 =
    (let ret0 = DCGM_ST_OK;
         startTime = UpdateStartTime p startTime0
     in case MonitorMemVolatileDbes K p entityGroup eid startTime endTime response0 of
        (localReturn1, response1) \<Rightarrow>
     let ret1 = (if localReturn1 \<noteq> DCGM_ST_OK then localReturn1 else ret0)
     in case MonitorMemRetiredPending K p entityGroup eid startTime endTime response1 of
        (localReturn2, response2) \<Rightarrow>
     let ret2 = (if localReturn2 \<noteq> DCGM_ST_OK then localReturn2 else ret1)
     in case MonitorMemSbeDbeRetiredPages K p entityGroup eid startTime endTime response2 of
        (localReturn3, response3) \<Rightarrow>
     let ret3 = (if localReturn3 \<noteq> DCGM_ST_OK then localReturn3 else ret2)
     in case MonitorMemRowRemapFailures K p entityGroup eid startTime endTime response3 of
        (localReturn4, response4) \<Rightarrow>
     let ret4 = (if localReturn4 \<noteq> DCGM_ST_OK then localReturn4 else ret3)
     in case MonitorUncontainedErrors hw entityGroup eid startTime endTime response4 of
        (localReturn5, response5) \<Rightarrow>
     let ret5 = (if localReturn5 \<noteq> DCGM_ST_OK then localReturn5 else ret4)
     in (ret5, response5))"

text \<open>
  \<^verbatim>\<open>MonitorInforom\<close> sets a zero start time to zero again ("check from the start of the
  cache") and reads the latest sample only; \<open>MonitorInforom_startTime\<close> is that assignment.
\<close>

definition MonitorInforom_startTime :: "DcgmCoreProxy \<Rightarrow> int64 \<Rightarrow> int64" where
  "MonitorInforom_startTime p startTime = (if startTime = 0 then 0 else startTime)"

definition MonitorInforom ::
  "dcgm_consts \<Rightarrow> DcgmCoreProxy \<Rightarrow> dcgm_field_entity_group_t \<Rightarrow> nat \<Rightarrow> int64 \<Rightarrow> int64
     \<Rightarrow> DcgmHealthResponse \<Rightarrow> dcgmReturn_t \<times> DcgmHealthResponse" where
  "MonitorInforom K p entityGroup eid startTime0 endTime response =
    (let fieldId = DCGM_FI_DEV_INFOROM_CONFIG_VALID;
         startTime = MonitorInforom_startTime p startTime0
     in case read_sample zero_sample (GetLatestSample p entityGroup eid fieldId) of
        (ret, sample) \<Rightarrow>
          if ret = DCGM_ST_NO_DATA then (DCGM_ST_OK, response)
          else if ret = DCGM_ST_NOT_WATCHED then (DCGM_ST_OK, response)
          else if ret \<noteq> DCGM_ST_OK then (ret, response)
          else if DCGM_INT64_IS_BLANK K (val_i64 sample) then (DCGM_ST_OK, response)
          else if val_i64 sample = 0
          then (ret,
                SetResponse entityGroup eid DCGM_HEALTH_RESULT_WARN DCGM_HEALTH_WATCH_INFOROM
                  DCGM_FR_CORRUPT_INFOROM response)
          else (ret, response))"

definition MonitorThermal ::
  "dcgm_consts \<Rightarrow> DcgmCoreProxy \<Rightarrow> dcgm_field_entity_group_t \<Rightarrow> nat \<Rightarrow> int64 \<Rightarrow> int64
     \<Rightarrow> DcgmHealthResponse \<Rightarrow> dcgmReturn_t \<times> DcgmHealthResponse" where
  "MonitorThermal K p entityGroup eid startTime0 endTime response =
    (let fieldId = DCGM_FI_DEV_THERMAL_VIOLATION;
         startTime = UpdateStartTime p startTime0
     in case read_sample zero_sample
               (GetSamples p entityGroup eid fieldId startTime endTime DCGM_ORDER_ASCENDING) of
        (ret, startValue) \<Rightarrow>
          if ret = DCGM_ST_NO_DATA then (DCGM_ST_OK, response)
          else if ret \<noteq> DCGM_ST_OK then (ret, response)
          else if DCGM_INT64_IS_BLANK K (val_i64 startValue) then (DCGM_ST_OK, response)
          else
            (case read_sample zero_sample (GetLatestSample p entityGroup eid fieldId) of
             (ret, endValue) \<Rightarrow>
               if ret = DCGM_ST_NO_DATA then (DCGM_ST_OK, response)
               else if ret \<noteq> DCGM_ST_OK then (ret, response)
               else if DCGM_INT64_IS_BLANK K (val_i64 endValue) then (DCGM_ST_OK, response)
               else
                 (let violationTime = abs_diff64 (val_i64 startValue) (val_i64 endValue)
                  in if violationTime \<noteq> 0
                     then (DCGM_ST_OK,
                           SetResponse entityGroup eid DCGM_HEALTH_RESULT_WARN
                             DCGM_HEALTH_WATCH_THERMAL DCGM_FR_CLOCK_THROTTLE_THERMAL response)
                     else (DCGM_ST_OK, response))))"

text \<open>
  \<^verbatim>\<open>MonitorPower\<close> first reads the latest power usage of a GPU (before the start time is
  set) and warns when it is blank and not the not-supported value; \<open>MonitorPower_usage\<close> is
  that block. The status of its read is overwritten by the window queries that follow.
\<close>

definition MonitorPower_usage ::
  "dcgm_consts \<Rightarrow> DcgmCoreProxy \<Rightarrow> dcgm_field_entity_group_t \<Rightarrow> nat \<Rightarrow> DcgmHealthResponse
     \<Rightarrow> DcgmHealthResponse" where
  "MonitorPower_usage K p entityGroup eid response =
    (if entityGroup = DCGM_FE_GPU
     then (case read_sample zero_sample
                  (GetLatestSample p entityGroup eid DCGM_FI_DEV_POWER_USAGE) of
           (ret, sample) \<Rightarrow>
             if ret = DCGM_ST_OK \<and> DCGM_FP64_IS_BLANK K (val_d sample)
                \<and> val_d sample \<noteq> DCGM_FP64_NOT_SUPPORTED K
             then SetResponse entityGroup eid DCGM_HEALTH_RESULT_WARN DCGM_HEALTH_WATCH_POWER
                    DCGM_FR_POWER_UNREADABLE response
             else response)
     else response)"

definition MonitorPower ::
  "dcgm_consts \<Rightarrow> DcgmCoreProxy \<Rightarrow> dcgm_field_entity_group_t \<Rightarrow> nat \<Rightarrow> int64 \<Rightarrow> int64
     \<Rightarrow> DcgmHealthResponse \<Rightarrow> dcgmReturn_t \<times> DcgmHealthResponse" where
  "MonitorPower K p entityGroup eid startTime0 endTime response0 =
    (let fieldId = DCGM_FI_DEV_POWER_VIOLATION;
         response = MonitorPower_usage K p entityGroup eid response0;
         startTime = UpdateStartTime p startTime0
     in case read_sample zero_sample
               (GetSamples p entityGroup eid fieldId startTime endTime DCGM_ORDER_ASCENDING) of
        (ret, startValue) \<Rightarrow>
          if ret = DCGM_ST_NO_DATA then (DCGM_ST_OK, response)
          else if ret \<noteq> DCGM_ST_OK then (ret, response)
          else if DCGM_INT64_IS_BLANK K (val_i64 startValue) then (DCGM_ST_OK, response)
          else
            (case read_sample zero_sample
                    (GetSamples p entityGroup eid fieldId startTime endTime DCGM_ORDER_DESCENDING) of
             (ret, endValue) \<Rightarrow>
               if ret = DCGM_ST_NO_DATA then (DCGM_ST_OK, response)
               else if ret \<noteq> DCGM_ST_OK then (ret, response)
               else if DCGM_INT64_IS_BLANK K (val_i64 endValue) then (DCGM_ST_OK, response)
               else
                 (let violationTime = abs_diff64 (val_i64 startValue) (val_i64 endValue)
                  in if violationTime \<noteq> 0
                     then (DCGM_ST_OK,
                           SetResponse entityGroup eid DCGM_HEALTH_RESULT_WARN
                             DCGM_HEALTH_WATCH_POWER DCGM_FR_CLOCK_THROTTLE_POWER response)
                     else (DCGM_ST_OK, response))))"

text \<open>
  The loops of the CPU evaluators over their field vector: each field is read into a fresh
  entry of an \<^verbatim>\<open>unordered_map\<close>; no data or a blank value ends the evaluator with success,
  any other failure ends it with that status (\<open>Inl\<close>); otherwise the filled map comes back.
\<close>

fun fetch_fields ::
  "dcgm_consts \<Rightarrow> (dcgm_field_id \<Rightarrow> dcgmReturn_t \<times> dcgmcm_sample_t option)
     \<Rightarrow> dcgm_field_id list \<Rightarrow> (dcgm_field_id \<Rightarrow> dcgmcm_sample_t)
     \<Rightarrow> dcgmReturn_t + (dcgm_field_id \<Rightarrow> dcgmcm_sample_t)" where
  "fetch_fields K q [] values = Inr values"
| "fetch_fields K q (field # rest) values =
    (case read_sample zero_sample (q field) of
     (ret, v) \<Rightarrow>
       if ret = DCGM_ST_NO_DATA then Inl DCGM_ST_OK
       else if ret \<noteq> DCGM_ST_OK then Inl ret
       else if DCGM_INT64_IS_BLANK K (val_i64 v) then Inl DCGM_ST_OK
       else fetch_fields K q rest (values(field := v)))"

definition MonitorCpuThermal ::
  "dcgm_consts \<Rightarrow> DcgmCoreProxy \<Rightarrow> dcgm_field_entity_group_t \<Rightarrow> nat \<Rightarrow> int64 \<Rightarrow> int64
     \<Rightarrow> DcgmHealthResponse \<Rightarrow> dcgmReturn_t \<times> DcgmHealthResponse" where
  "MonitorCpuThermal K p entityGroup eid startTime0 endTime response =
    (let fieldId = [DCGM_FI_DEV_CPU_TEMP_CURRENT, DCGM_FI_DEV_CPU_TEMP_WARNING,
                    DCGM_FI_DEV_CPU_TEMP_CRITICAL];
         startTime = UpdateStartTime p startTime0
     in case fetch_fields K
               (\<lambda>field. GetSamples p entityGroup eid field startTime endTime DCGM_ORDER_ASCENDING)
               fieldId (\<lambda>_. zero_sample) of
          Inl ret \<Rightarrow> (ret, response)
        | Inr startValue \<Rightarrow>
           (case fetch_fields K (\<lambda>field. GetLatestSample p entityGroup eid field)
                   fieldId (\<lambda>_. zero_sample) of
              Inl ret \<Rightarrow> (ret, response)
            | Inr endValue \<Rightarrow>
               (let response1 =
                      (if val_d (endValue DCGM_FI_DEV_CPU_TEMP_WARNING)
                            \<le> (val_d (startValue DCGM_FI_DEV_CPU_TEMP_CURRENT)
                                 + val_d (endValue DCGM_FI_DEV_CPU_TEMP_CURRENT)) / 2
                       then SetResponse entityGroup eid DCGM_HEALTH_RESULT_WARN
                              DCGM_HEALTH_WATCH_THERMAL DCGM_FR_FIELD_THRESHOLD_DBL response
                       else response);
                    response2 =
                      (if val_d (endValue DCGM_FI_DEV_CPU_TEMP_CRITICAL)
                            \<le> val_d (endValue DCGM_FI_DEV_CPU_TEMP_CURRENT)
                       then SetResponse entityGroup eid DCGM_HEALTH_RESULT_FAIL
                              DCGM_HEALTH_WATCH_THERMAL DCGM_FR_FIELD_THRESHOLD_DBL response1
                       else response1)
                in (DCGM_ST_OK, response2))))"

definition MonitorCpuPower ::
  "dcgm_consts \<Rightarrow> DcgmCoreProxy \<Rightarrow> dcgm_field_entity_group_t \<Rightarrow> nat \<Rightarrow> int64 \<Rightarrow> int64
     \<Rightarrow> DcgmHealthResponse \<Rightarrow> dcgmReturn_t \<times> DcgmHealthResponse" where
  "MonitorCpuPower K p entityGroup eid startTime endTime response =
    (let fieldId = [DCGM_FI_DEV_CPU_POWER_UTIL_CURRENT, DCGM_FI_DEV_CPU_POWER_LIMIT]
     in case fetch_fields K (\<lambda>field. GetLatestSample p entityGroup eid field)
               fieldId (\<lambda>_. zero_sample) of
          Inl ret \<Rightarrow> (ret, response)
        | Inr currValue \<Rightarrow>
            if val_d (currValue DCGM_FI_DEV_CPU_POWER_LIMIT)
                 \<le> val_d (currValue DCGM_FI_DEV_CPU_POWER_UTIL_CURRENT)
            then (DCGM_ST_OK,
                  SetResponse entityGroup eid DCGM_HEALTH_RESULT_FAIL DCGM_HEALTH_WATCH_POWER
                    DCGM_FR_FIELD_THRESHOLD_DBL response)
            else (DCGM_ST_OK, response))"

text \<open>
  The incident of one NVLink counter whose delta reached \<^verbatim>\<open>DCGM_LIMIT_MAX_NVLINK_ERROR\<close>:
  the severity and the error code. Replay and recovery errors fail; CRC errors are rated per
  second over the window (\<^verbatim>\<open>now\<close> closes it when the end time is 0), and the comparison with
  the CRC limit is \<^verbatim>\<open>perSec >= DCGM_LIMIT_MAX_NVLINK_CRC_ERROR\<close>. The code computes the rate in
  \<^verbatim>\<open>double\<close>; here it is a real number, which is the same value as long as the window in
  microseconds and the error count are below 2 to the power 53 and the two quotients are
  exact, and can differ from the code by rounding otherwise.
\<close>

definition NVLinkErrorResult ::
  "dcgm_consts \<Rightarrow> dcgm_field_id \<Rightarrow> int64 \<Rightarrow> int64 \<Rightarrow> int64 \<Rightarrow> int64
     \<Rightarrow> dcgmHealthWatchResults_t \<times> dcgmError_t" where
  "NVLinkErrorResult K field nvLinkError now startTime endTime =
    (if field = DCGM_FI_DEV_NVLINK_REPLAY_ERROR_COUNT_TOTAL
        \<or> field = DCGM_FI_DEV_NVLINK_RECOVERY_ERROR_COUNT_TOTAL
     then (DCGM_HEALTH_RESULT_FAIL, DCGM_FR_NVLINK_ERROR_CRITICAL)
     else
      (let timeDiffInSec =
             (if endTime = 0 then real_of_int (sint (now - startTime)) / 1000000
              else real_of_int (sint (endTime - startTime)) / 1000000)
       in if fp_div_ge (real_of_int (sint nvLinkError)) timeDiffInSec
               (DCGM_LIMIT_MAX_NVLINK_CRC_ERROR K)
          then (DCGM_HEALTH_RESULT_FAIL, DCGM_FR_NVLINK_CRC_ERROR_THRESHOLD)
          else (DCGM_HEALTH_RESULT_WARN, DCGM_FR_NVLINK_ERROR_THRESHOLD)))"

text \<open>
  The counter loop of \<^verbatim>\<open>MonitorNVLink\<close>. The two sample buffers are declared outside the loop
  and keep their contents from one counter to the next. \<open>Some ret\<close> is a return from inside
  the loop, \<open>None\<close> its normal end.
\<close>

fun MonitorNVLink_fields ::
  "dcgm_consts \<Rightarrow> DcgmCoreProxy \<Rightarrow> dcgm_field_entity_group_t \<Rightarrow> nat \<Rightarrow> int64 \<Rightarrow> int64 \<Rightarrow> int64
     \<Rightarrow> dcgm_field_id list \<Rightarrow> dcgmcm_sample_t \<Rightarrow> dcgmcm_sample_t \<Rightarrow> DcgmHealthResponse
     \<Rightarrow> dcgmReturn_t option \<times> DcgmHealthResponse" where
  "MonitorNVLink_fields K p entityGroup eid now startTime endTime [] startValue0 endValue0 response =
     (None, response)"
| "MonitorNVLink_fields K p entityGroup eid now startTime endTime (field # rest)
       startValue0 endValue0 response =
    (case read_sample startValue0
            (GetSamples p entityGroup eid field startTime endTime DCGM_ORDER_ASCENDING) of
     (ret, startValue) \<Rightarrow>
       if ret \<noteq> DCGM_ST_OK \<and> ret \<noteq> DCGM_ST_NO_DATA \<and> ret \<noteq> DCGM_ST_NOT_WATCHED
       then (Some ret, response)
       else if ret = DCGM_ST_NO_DATA \<or> val_i64 startValue = DCGM_INT64_NOT_SUPPORTED K
               \<or> DCGM_INT64_IS_BLANK K (val_i64 startValue)
       then MonitorNVLink_fields K p entityGroup eid now startTime endTime rest
              startValue endValue0 response
       else
        (case read_sample endValue0
                (GetSamples p entityGroup eid field startTime endTime DCGM_ORDER_DESCENDING) of
         (ret, endValue) \<Rightarrow>
           if ret \<noteq> DCGM_ST_OK \<and> ret \<noteq> DCGM_ST_NO_DATA then (Some ret, response)
           else if ret = DCGM_ST_NO_DATA \<or> DCGM_INT64_IS_BLANK K (val_i64 endValue)
           then MonitorNVLink_fields K p entityGroup eid now startTime endTime rest
                  startValue endValue response
           else
            (let nvLinkError = abs_diff64 (val_i64 startValue) (val_i64 endValue);
                 response1 =
                   (if sint (DCGM_LIMIT_MAX_NVLINK_ERROR K) \<le> sint nvLinkError
                    then (case NVLinkErrorResult K field nvLinkError now startTime endTime of
                          (res, d) \<Rightarrow>
                            SetResponse entityGroup eid res DCGM_HEALTH_WATCH_NVLINK d response)
                    else response)
             in MonitorNVLink_fields K p entityGroup eid now startTime endTime rest
                  startValue endValue response1)))"

text \<open>One \<^verbatim>\<open>DCGM_FR_NVLINK_DOWN\<close> incident for every link of the array that is down.\<close>

definition LinksDown ::
  "dcgm_field_entity_group_t \<Rightarrow> nat \<Rightarrow> dcgmHealthWatchResults_t \<Rightarrow> dcgmHealthSystems_enum
     \<Rightarrow> (nat \<Rightarrow> dcgmNvLinkLinkState_t) \<Rightarrow> nat \<Rightarrow> DcgmHealthResponse \<Rightarrow> DcgmHealthResponse" where
  "LinksDown entityGroup eid status system linkStates n response =
     foldl (\<lambda>r i. if linkStates i = DcgmNvLinkLinkStateDown
                   then SetResponse entityGroup eid status system DCGM_FR_NVLINK_DOWN r else r)
       response [0..<n]"

definition MonitorNVLink ::
  "dcgm_consts \<Rightarrow> DcgmCoreProxy \<Rightarrow> dcgm_field_entity_group_t \<Rightarrow> nat \<Rightarrow> int64 \<Rightarrow> int64
     \<Rightarrow> DcgmHealthResponse \<Rightarrow> dcgmReturn_t \<times> DcgmHealthResponse" where
  "MonitorNVLink K p entityGroup eid startTime0 endTime response =
    (let fieldIds = [DCGM_FI_DEV_NVLINK_CRC_FLIT_ERROR_COUNT_TOTAL,
                     DCGM_FI_DEV_NVLINK_CRC_DATA_ERROR_COUNT_TOTAL,
                     DCGM_FI_DEV_NVLINK_REPLAY_ERROR_COUNT_TOTAL,
                     DCGM_FI_DEV_NVLINK_RECOVERY_ERROR_COUNT_TOTAL];
         now = timelib_usecSince1970 p;
         startTime = UpdateStartTime p startTime0
     in case MonitorNVLink_fields K p entityGroup eid now startTime endTime fieldIds
               zero_sample zero_sample response of
          (Some ret, response1) \<Rightarrow> (ret, response1)
        | (None, response1) \<Rightarrow>
           (case GetEntityNvLinkLinkStatus p DCGM_FE_GPU eid of
            (ret, linkStates) \<Rightarrow>
              if ret \<noteq> DCGM_ST_OK then (ret, response1)
              else (DCGM_ST_OK,
                    LinksDown entityGroup eid DCGM_HEALTH_RESULT_FAIL DCGM_HEALTH_WATCH_NVLINK
                      linkStates (DCGM_NVLINK_MAX_LINKS_PER_GPU K) response1)))"

text \<open>The field lists built once by \<^verbatim>\<open>BuildFieldLists\<close>.\<close>

definition m_nvSwitchNonFatalFieldIds :: "dcgm_field_id list" where
  "m_nvSwitchNonFatalFieldIds = [DCGM_FI_DEV_NVSWITCH_NON_FATAL_ERRORS]"

definition m_nvSwitchFatalFieldIds :: "dcgm_field_id list" where
  "m_nvSwitchFatalFieldIds = [DCGM_FI_DEV_NVSWITCH_FATAL_ERRORS]"

text \<open>
  The field loop of \<^verbatim>\<open>MonitorNvSwitchErrorCounts\<close>; the one sample buffer is shared by all
  fields, and a field whose query fails is skipped.
\<close>

fun MonitorNvSwitch_fields ::
  "dcgm_consts \<Rightarrow> DcgmCoreProxy \<Rightarrow> bool \<Rightarrow> dcgm_field_entity_group_t \<Rightarrow> nat \<Rightarrow> int64 \<Rightarrow> int64
     \<Rightarrow> dcgm_field_id list \<Rightarrow> dcgmcm_sample_t \<Rightarrow> DcgmHealthResponse \<Rightarrow> DcgmHealthResponse" where
  "MonitorNvSwitch_fields K p fatal entityGroup eid startTime endTime [] sample0 response = response"
| "MonitorNvSwitch_fields K p fatal entityGroup eid startTime endTime (field # rest) sample0 response =
    (case read_sample sample0
            (GetSamples p entityGroup eid field startTime endTime DCGM_ORDER_DESCENDING) of
     (dcgmReturn, sample) \<Rightarrow>
       if dcgmReturn \<noteq> DCGM_ST_OK
       then MonitorNvSwitch_fields K p fatal entityGroup eid startTime endTime rest sample response
       else
        (let response1 =
               (if \<not> DCGM_INT64_IS_BLANK K (val_i64 sample) \<and> 0 < sint (val_i64 sample)
                then (if fatal
                      then SetResponse entityGroup eid DCGM_HEALTH_RESULT_FAIL
                             DCGM_HEALTH_WATCH_NVSWITCH_FATAL DCGM_FR_NVSWITCH_FATAL_ERROR response
                      else SetResponse entityGroup eid DCGM_HEALTH_RESULT_WARN
                             DCGM_HEALTH_WATCH_NVSWITCH_NONFATAL DCGM_FR_NVSWITCH_NON_FATAL_ERROR
                             response)
                else response)
         in MonitorNvSwitch_fields K p fatal entityGroup eid startTime endTime rest sample
              response1))"

definition MonitorNvSwitchErrorCounts ::
  "dcgm_consts \<Rightarrow> DcgmCoreProxy \<Rightarrow> bool \<Rightarrow> dcgm_field_entity_group_t \<Rightarrow> nat \<Rightarrow> int64 \<Rightarrow> int64
     \<Rightarrow> DcgmHealthResponse \<Rightarrow> dcgmReturn_t \<times> DcgmHealthResponse" where
  "MonitorNvSwitchErrorCounts K p fatal entityGroup eid startTime0 endTime response =
    (let startTime = UpdateStartTime p startTime0;
         fieldIds = (if fatal then m_nvSwitchFatalFieldIds else m_nvSwitchNonFatalFieldIds);
         response1 = MonitorNvSwitch_fields K p fatal entityGroup eid startTime endTime fieldIds
                       zero_sample response
     in if fatal
        then (case GetEntityNvLinkLinkStatus p DCGM_FE_SWITCH eid of
              (dcgmReturn, linkStates) \<Rightarrow>
                if dcgmReturn \<noteq> DCGM_ST_OK then (dcgmReturn, response1)
                else (DCGM_ST_OK,
                      LinksDown entityGroup eid DCGM_HEALTH_RESULT_FAIL
                        DCGM_HEALTH_WATCH_NVSWITCH_FATAL linkStates
                        (DCGM_NVLINK_MAX_LINKS_PER_NVSWITCH K) response1))
        else (DCGM_ST_OK, response1))"

section \<open>Dispatch of the evaluators\<close>

text \<open>
  The \<^verbatim>\<open>switch (bit)\<close> of \<^verbatim>\<open>MonitorWatchesForGpu\<close>, in the order of its cases; the
  result is \<^verbatim>\<open>tmpRet\<close>, which starts as success in every round, and the response. The
  loop below calls it with \<^verbatim>\<open>bit = 1 << index\<close>.
\<close>

definition MonitorWatchesForGpu_switch ::
  "dcgm_consts \<Rightarrow> DcgmCoreProxy \<Rightarrow> DcgmHealthWatch \<Rightarrow> nat \<Rightarrow> int64 \<Rightarrow> int64 \<Rightarrow> uint32 \<Rightarrow> uint32
     \<Rightarrow> DcgmHealthResponse \<Rightarrow> dcgmReturn_t \<times> DcgmHealthResponse" where
  "MonitorWatchesForGpu_switch K p hw gpuId startTime endTime healthSystemsMask bitv response =
    (if bitv = health_bit K DCGM_HEALTH_WATCH_PCIE then
          (if bitv AND healthSystemsMask \<noteq> 0
           then MonitorPcie K p DCGM_FE_GPU gpuId startTime endTime response
           else (DCGM_ST_OK, response))
        else if bitv = health_bit K DCGM_HEALTH_WATCH_MEM then
          (if bitv AND healthSystemsMask \<noteq> 0
           then MonitorMem K p hw DCGM_FE_GPU gpuId startTime endTime response
           else (DCGM_ST_OK, response))
        else if bitv = health_bit K DCGM_HEALTH_WATCH_INFOROM then
          (if bitv AND healthSystemsMask \<noteq> 0
           then MonitorInforom K p DCGM_FE_GPU gpuId startTime endTime response
           else (DCGM_ST_OK, response))
        else if bitv = health_bit K DCGM_HEALTH_WATCH_THERMAL then
          (if bitv AND healthSystemsMask \<noteq> 0
           then MonitorThermal K p DCGM_FE_GPU gpuId startTime endTime response
           else (DCGM_ST_OK, response))
        else if bitv = health_bit K DCGM_HEALTH_WATCH_POWER then
          (if bitv AND healthSystemsMask \<noteq> 0
           then MonitorPower K p DCGM_FE_GPU gpuId startTime endTime response
           else (DCGM_ST_OK, response))
        else if bitv = health_bit K DCGM_HEALTH_WATCH_NVLINK then
          (if bitv AND healthSystemsMask \<noteq> 0
           then MonitorNVLink K p DCGM_FE_GPU gpuId startTime endTime response
           else (DCGM_ST_OK, response))
        else (DCGM_ST_OK, response))"

fun MonitorWatchesForGpu_loop ::
  "dcgm_consts \<Rightarrow> DcgmCoreProxy \<Rightarrow> DcgmHealthWatch \<Rightarrow> nat \<Rightarrow> int64 \<Rightarrow> int64 \<Rightarrow> uint32
     \<Rightarrow> nat list \<Rightarrow> dcgmReturn_t \<Rightarrow> DcgmHealthResponse \<Rightarrow> dcgmReturn_t \<times> DcgmHealthResponse" where
  "MonitorWatchesForGpu_loop K p hw gpuId startTime endTime healthSystemsMask [] ret response =
     (ret, response)"
| "MonitorWatchesForGpu_loop K p hw gpuId startTime endTime healthSystemsMask (index # rest) ret
       response =
    (case MonitorWatchesForGpu_switch K p hw gpuId startTime endTime healthSystemsMask
            (push_bit index 1) response of
     (tmpRet, response1) \<Rightarrow>
       MonitorWatchesForGpu_loop K p hw gpuId startTime endTime healthSystemsMask rest
         (if ret = DCGM_ST_OK \<and> tmpRet \<noteq> DCGM_ST_OK then tmpRet else ret) response1)"

definition MonitorWatchesForGpu ::
  "dcgm_consts \<Rightarrow> DcgmCoreProxy \<Rightarrow> DcgmHealthWatch \<Rightarrow> nat \<Rightarrow> int64 \<Rightarrow> int64 \<Rightarrow> uint32
     \<Rightarrow> DcgmHealthResponse \<Rightarrow> dcgmReturn_t \<times> DcgmHealthResponse" where
  "MonitorWatchesForGpu K p hw gpuId startTime endTime healthSystemsMask response =
    (if DCGM_MAX_NUM_DEVICES K \<le> gpuId then (DCGM_ST_BADPARAM, response)
     else MonitorWatchesForGpu_loop K p hw gpuId startTime endTime healthSystemsMask
            [0..<DCGM_HEALTH_WATCH_COUNT_V1 K] DCGM_ST_OK response)"

text \<open>
  The \<^verbatim>\<open>switch (bit)\<close> of the inner loop of \<^verbatim>\<open>MonitorWatches\<close>. Here \<^verbatim>\<open>ret\<close> is assigned by every
  evaluator that runs and keeps its value otherwise. In the thermal and power cases the
  \<^verbatim>\<open>break\<close> after a failed device evaluator leaves the \<^verbatim>\<open>switch\<close>, skipping the CPU test.
\<close>

definition MonitorWatches_switch ::
  "dcgm_consts \<Rightarrow> DcgmCoreProxy \<Rightarrow> DcgmHealthWatch \<Rightarrow> dcgm_field_entity_group_t \<Rightarrow> nat \<Rightarrow> int64
     \<Rightarrow> int64 \<Rightarrow> uint32 \<Rightarrow> uint32 \<Rightarrow> dcgmReturn_t \<Rightarrow> DcgmHealthResponse
     \<Rightarrow> dcgmReturn_t \<times> DcgmHealthResponse" where
  "MonitorWatches_switch K p hw entityGroup eid startTime endTime healthSystemsMask bitv ret response =
    (if bitv = health_bit K DCGM_HEALTH_WATCH_PCIE then
          (if bitv AND healthSystemsMask \<noteq> 0 \<and> FitsGpuHardwareCheck entityGroup
           then MonitorPcie K p entityGroup eid startTime endTime response
           else (ret, response))
        else if bitv = health_bit K DCGM_HEALTH_WATCH_MEM then
          (if bitv AND healthSystemsMask \<noteq> 0 \<and> FitsGpuHardwareCheck entityGroup
           then MonitorMem K p hw entityGroup eid startTime endTime response
           else (ret, response))
        else if bitv = health_bit K DCGM_HEALTH_WATCH_INFOROM then
          (if bitv AND healthSystemsMask \<noteq> 0 \<and> FitsGpuHardwareCheck entityGroup
           then MonitorInforom K p entityGroup eid startTime endTime response
           else (ret, response))
        else if bitv = health_bit K DCGM_HEALTH_WATCH_THERMAL then
          (case (if bitv AND healthSystemsMask \<noteq> 0 \<and> FitsGpuHardwareCheck entityGroup
                 then MonitorThermal K p entityGroup eid startTime endTime response
                 else (ret, response)) of
           (ret1, response1) \<Rightarrow>
             if bitv AND healthSystemsMask \<noteq> 0 \<and> FitsGpuHardwareCheck entityGroup
                \<and> ret1 \<noteq> DCGM_ST_OK
             then (ret1, response1)
             else if bitv AND healthSystemsMask \<noteq> 0 \<and> entityGroup = DCGM_FE_CPU
             then MonitorCpuThermal K p entityGroup eid startTime endTime response1
             else (ret1, response1))
        else if bitv = health_bit K DCGM_HEALTH_WATCH_POWER then
          (case (if bitv AND healthSystemsMask \<noteq> 0 \<and> FitsGpuHardwareCheck entityGroup
                 then MonitorPower K p entityGroup eid startTime endTime response
                 else (ret, response)) of
           (ret1, response1) \<Rightarrow>
             if bitv AND healthSystemsMask \<noteq> 0 \<and> FitsGpuHardwareCheck entityGroup
                \<and> ret1 \<noteq> DCGM_ST_OK
             then (ret1, response1)
             else if bitv AND healthSystemsMask \<noteq> 0 \<and> entityGroup = DCGM_FE_CPU
             then MonitorCpuPower K p entityGroup eid startTime endTime response1
             else (ret1, response1))
        else if bitv = health_bit K DCGM_HEALTH_WATCH_NVLINK then
          (if bitv AND healthSystemsMask \<noteq> 0 \<and> FitsGpuHardwareCheck entityGroup
           then MonitorNVLink K p entityGroup eid startTime endTime response
           else (ret, response))
        else if bitv = health_bit K DCGM_HEALTH_WATCH_NVSWITCH_NONFATAL then
          (if bitv AND healthSystemsMask \<noteq> 0 \<and> entityGroup = DCGM_FE_SWITCH
           then MonitorNvSwitchErrorCounts K p False entityGroup eid startTime endTime response
           else (ret, response))
        else if bitv = health_bit K DCGM_HEALTH_WATCH_NVSWITCH_FATAL then
          (if bitv AND healthSystemsMask \<noteq> 0 \<and> entityGroup = DCGM_FE_SWITCH
           then MonitorNvSwitchErrorCounts K p True entityGroup eid startTime endTime response
           else (ret, response))
        else (ret, response))"

fun MonitorWatches_bits ::
  "dcgm_consts \<Rightarrow> DcgmCoreProxy \<Rightarrow> DcgmHealthWatch \<Rightarrow> dcgm_field_entity_group_t \<Rightarrow> nat \<Rightarrow> int64
     \<Rightarrow> int64 \<Rightarrow> uint32 \<Rightarrow> nat list \<Rightarrow> dcgmReturn_t \<Rightarrow> DcgmHealthResponse
     \<Rightarrow> dcgmReturn_t \<times> DcgmHealthResponse" where
  "MonitorWatches_bits K p hw entityGroup eid startTime endTime healthSystemsMask [] ret response =
     (ret, response)"
| "MonitorWatches_bits K p hw entityGroup eid startTime endTime healthSystemsMask (index # rest) ret
       response =
    (case MonitorWatches_switch K p hw entityGroup eid startTime endTime healthSystemsMask
            (push_bit index 1) ret response of
     (ret1, response1) \<Rightarrow>
       MonitorWatches_bits K p hw entityGroup eid startTime endTime healthSystemsMask rest ret1
         response1)"

fun MonitorWatches_entities ::
  "dcgm_consts \<Rightarrow> DcgmCoreProxy \<Rightarrow> DcgmHealthWatch \<Rightarrow> int64 \<Rightarrow> int64 \<Rightarrow> uint32
     \<Rightarrow> dcgmGroupEntityPair_t list \<Rightarrow> dcgmReturn_t \<Rightarrow> DcgmHealthResponse
     \<Rightarrow> dcgmReturn_t \<times> DcgmHealthResponse" where
  "MonitorWatches_entities K p hw startTime endTime healthSystemsMask [] ret response =
     (ret, response)"
| "MonitorWatches_entities K p hw startTime endTime healthSystemsMask (entity # rest) ret response =
    (case MonitorWatches_bits K p hw (fst entity) (snd entity) startTime endTime healthSystemsMask
            [0..<DCGM_HEALTH_WATCH_COUNT_V2 K] ret response of
     (ret1, response1) \<Rightarrow>
       MonitorWatches_entities K p hw startTime endTime healthSystemsMask rest ret1 response1)"

definition MonitorWatches ::
  "dcgm_consts \<Rightarrow> DcgmCoreProxy \<Rightarrow> DcgmHealthWatch \<Rightarrow> nat \<Rightarrow> int64 \<Rightarrow> int64
     \<Rightarrow> DcgmHealthResponse \<Rightarrow> dcgmReturn_t \<times> DcgmHealthResponse" where
  "MonitorWatches K p hw groupId startTime0 endTime0 response =
    (let startTime = (if DCGM_INT64_IS_BLANK K startTime0 then 0 else startTime0);
         endTime = (if DCGM_INT64_IS_BLANK K endTime0 then 0 else endTime0)
     in case GetGroupEntities p groupId of
        (ret, entities) \<Rightarrow>
          if ret \<noteq> DCGM_ST_OK then (ret, response)
          else
           (let healthSystemsMask =
                  (case mGroupWatchState hw groupId of None \<Rightarrow> 0 | Some systems \<Rightarrow> systems)
            in if healthSystemsMask = 0 then (DCGM_ST_OK, response)
               else MonitorWatches_entities K p hw startTime endTime healthSystemsMask entities
                      ret response))"

section \<open>The watch installers\<close>

text \<open>
  An installer issues its \<^verbatim>\<open>AddFieldWatch\<close> calls in order and returns at the first one
  that fails. \<open>AddFieldWatches\<close> is that sequence: the status, and the requests issued.
\<close>

fun AddFieldWatches ::
  "DcgmCoreProxy \<Rightarrow> watch_request list \<Rightarrow> dcgmReturn_t \<times> watch_request list" where
  "AddFieldWatches p [] = (DCGM_ST_OK, [])"
| "AddFieldWatches p (r # rs) =
    (let ret = AddFieldWatch p r
     in if ret \<noteq> DCGM_ST_OK then (ret, [r])
        else (case AddFieldWatches p rs of (ret1, issued) \<Rightarrow> (ret1, r # issued)))"

text \<open>\<^verbatim>\<open>std::max\<close> on \<^verbatim>\<open>long long\<close>.\<close>

definition max64 :: "int64 \<Rightarrow> int64 \<Rightarrow> int64" where
  "max64 a b = (if sint a < sint b then b else a)"

definition SetPcie ::
  "DcgmCoreProxy \<Rightarrow> dcgm_field_entity_group_t \<Rightarrow> nat \<Rightarrow> bool \<Rightarrow> nat \<Rightarrow> int64 \<Rightarrow> real
     \<Rightarrow> dcgmReturn_t \<times> watch_request list" where
  "SetPcie p entityGroup eid enable watcher updateInterval maxKeepAge =
    (if \<not> enable then (DCGM_ST_OK, [])
     else AddFieldWatches p
            [WatchRequest entityGroup eid DCGM_FI_DEV_PCIE_REPLAY_COUNTER updateInterval maxKeepAge
               watcher False])"

definition SetMem ::
  "DcgmCoreProxy \<Rightarrow> dcgm_field_entity_group_t \<Rightarrow> nat \<Rightarrow> bool \<Rightarrow> nat \<Rightarrow> int64 \<Rightarrow> real
     \<Rightarrow> dcgmReturn_t \<times> watch_request list" where
  "SetMem p entityGroup eid enable watcher updateInterval0 maxKeepAge =
    (if \<not> enable then (DCGM_ST_OK, [])
     else
      (let updateInterval = max64 30000000 updateInterval0
       in AddFieldWatches p
            [WatchRequest entityGroup eid DCGM_FI_DEV_ECC_DBE_VOL_TOTAL updateInterval0 maxKeepAge
               watcher False,
             WatchRequest entityGroup eid DCGM_FI_DEV_RETIRED_SBE updateInterval maxKeepAge
               watcher False,
             WatchRequest entityGroup eid DCGM_FI_DEV_RETIRED_DBE updateInterval maxKeepAge
               watcher False,
             WatchRequest entityGroup eid DCGM_FI_DEV_RETIRED_PENDING updateInterval maxKeepAge
               watcher False,
             WatchRequest entityGroup eid DCGM_FI_DEV_XID_ERRORS updateInterval maxKeepAge
               watcher True,
             WatchRequest entityGroup eid DCGM_FI_DEV_ROW_REMAP_FAILURE updateInterval maxKeepAge
               watcher False]))"

definition SetInforom ::
  "DcgmCoreProxy \<Rightarrow> dcgm_field_entity_group_t \<Rightarrow> nat \<Rightarrow> bool \<Rightarrow> nat \<Rightarrow> int64 \<Rightarrow> real
     \<Rightarrow> dcgmReturn_t \<times> watch_request list" where
  "SetInforom p entityGroup eid enable watcher updateInterval0 maxKeepAge0 =
    (if \<not> enable then (DCGM_ST_OK, [])
     else
      (let updateInterval = max64 3600000000 updateInterval0;
           maxKeepAge = max 7200 maxKeepAge0
       in AddFieldWatches p
            [WatchRequest entityGroup eid DCGM_FI_DEV_INFOROM_CONFIG_VALID updateInterval maxKeepAge
               watcher False]))"

definition SetThermal ::
  "DcgmCoreProxy \<Rightarrow> dcgm_field_entity_group_t \<Rightarrow> nat \<Rightarrow> bool \<Rightarrow> nat \<Rightarrow> int64 \<Rightarrow> real
     \<Rightarrow> dcgmReturn_t \<times> watch_request list" where
  "SetThermal p entityGroup eid enable watcher updateInterval0 maxKeepAge =
    (if \<not> enable then (DCGM_ST_OK, [])
     else
      (let updateInterval = max64 30000000 updateInterval0
       in AddFieldWatches p
            [WatchRequest entityGroup eid DCGM_FI_DEV_THERMAL_VIOLATION updateInterval maxKeepAge
               watcher False]))"

definition SetPower ::
  "DcgmCoreProxy \<Rightarrow> dcgm_field_entity_group_t \<Rightarrow> nat \<Rightarrow> bool \<Rightarrow> nat \<Rightarrow> int64 \<Rightarrow> real
     \<Rightarrow> dcgmReturn_t \<times> watch_request list" where
  "SetPower p entityGroup eid enable watcher updateInterval0 maxKeepAge =
    (if \<not> enable then (DCGM_ST_OK, [])
     else
      (let updateInterval = max64 30000000 updateInterval0
       in AddFieldWatches p
            [WatchRequest entityGroup eid DCGM_FI_DEV_POWER_VIOLATION updateInterval maxKeepAge
               watcher False,
             WatchRequest entityGroup eid DCGM_FI_DEV_POWER_USAGE updateInterval maxKeepAge
               watcher False]))"

definition SetCpuThermal ::
  "DcgmCoreProxy \<Rightarrow> dcgm_field_entity_group_t \<Rightarrow> nat \<Rightarrow> bool \<Rightarrow> nat \<Rightarrow> int64 \<Rightarrow> real
     \<Rightarrow> dcgmReturn_t \<times> watch_request list" where
  "SetCpuThermal p entityGroup eid enable watcher updateInterval0 maxKeepAge =
    (if \<not> enable then (DCGM_ST_OK, [])
     else
      (let updateInterval = max64 30000000 updateInterval0
       in AddFieldWatches p
            [WatchRequest entityGroup eid DCGM_FI_DEV_CPU_TEMP_CURRENT updateInterval maxKeepAge
               watcher False,
             WatchRequest entityGroup eid DCGM_FI_DEV_CPU_TEMP_WARNING updateInterval maxKeepAge
               watcher False,
             WatchRequest entityGroup eid DCGM_FI_DEV_CPU_TEMP_CRITICAL updateInterval maxKeepAge
               watcher False]))"

definition SetCpuPower ::
  "DcgmCoreProxy \<Rightarrow> dcgm_field_entity_group_t \<Rightarrow> nat \<Rightarrow> bool \<Rightarrow> nat \<Rightarrow> int64 \<Rightarrow> real
     \<Rightarrow> dcgmReturn_t \<times> watch_request list" where
  "SetCpuPower p entityGroup eid enable watcher updateInterval0 maxKeepAge =
    (if \<not> enable then (DCGM_ST_OK, [])
     else
      (let updateInterval = max64 30000000 updateInterval0
       in AddFieldWatches p
            [WatchRequest entityGroup eid DCGM_FI_DEV_CPU_POWER_UTIL_CURRENT updateInterval
               maxKeepAge watcher False,
             WatchRequest entityGroup eid DCGM_FI_DEV_CPU_POWER_LIMIT updateInterval maxKeepAge
               watcher False]))"

definition SetNVLink ::
  "DcgmCoreProxy \<Rightarrow> dcgm_field_entity_group_t \<Rightarrow> nat \<Rightarrow> bool \<Rightarrow> nat \<Rightarrow> int64 \<Rightarrow> real
     \<Rightarrow> dcgmReturn_t \<times> watch_request list" where
  "SetNVLink p entityGroup eid enable watcher updateInterval maxKeepAge =
    (if \<not> enable then (DCGM_ST_OK, [])
     else AddFieldWatches p
            [WatchRequest entityGroup eid DCGM_FI_DEV_NVLINK_CRC_FLIT_ERROR_COUNT_TOTAL
               updateInterval maxKeepAge watcher False,
             WatchRequest entityGroup eid DCGM_FI_DEV_NVLINK_CRC_DATA_ERROR_COUNT_TOTAL
               updateInterval maxKeepAge watcher False,
             WatchRequest entityGroup eid DCGM_FI_DEV_NVLINK_REPLAY_ERROR_COUNT_TOTAL
               updateInterval maxKeepAge watcher False,
             WatchRequest entityGroup eid DCGM_FI_DEV_NVLINK_RECOVERY_ERROR_COUNT_TOTAL
               updateInterval maxKeepAge watcher False])"

text \<open>
  \<^verbatim>\<open>SetNvSwitchWatches\<close>: for every switch in turn its non-fatal fields when that bit is in
  the mask, then its fatal fields when that bit is; the first failing call ends it.
\<close>

definition SetNvSwitchWatches ::
  "dcgm_consts \<Rightarrow> DcgmCoreProxy \<Rightarrow> nat list \<Rightarrow> uint32 \<Rightarrow> nat \<Rightarrow> int64 \<Rightarrow> real
     \<Rightarrow> dcgmReturn_t \<times> watch_request list" where
  "SetNvSwitchWatches K p groupSwitchIds systems watcher updateInterval maxKeepAge =
     AddFieldWatches p
       (concat (map (\<lambda>switchId.
           (if systems AND health_bit K DCGM_HEALTH_WATCH_NVSWITCH_NONFATAL \<noteq> 0
            then map (\<lambda>f. WatchRequest DCGM_FE_SWITCH switchId f updateInterval maxKeepAge watcher
                             False) m_nvSwitchNonFatalFieldIds
            else [])
           @ (if systems AND health_bit K DCGM_HEALTH_WATCH_NVSWITCH_FATAL \<noteq> 0
              then map (\<lambda>f. WatchRequest DCGM_FE_SWITCH switchId f updateInterval maxKeepAge
                               watcher False) m_nvSwitchFatalFieldIds
              else []))
         groupSwitchIds))"

section \<open>SetWatches, GetWatches and the notifications\<close>

text \<open>
  The \<^verbatim>\<open>switch (bit)\<close> of \<^verbatim>\<open>SetWatches\<close> for a GPU, GPU instance or compute instance:
  the installer of the bit assigns \<^verbatim>\<open>tmpRet\<close>; the default case leaves it as it was.
\<close>

definition SetWatches_gpu_switch ::
  "dcgm_consts \<Rightarrow> DcgmCoreProxy \<Rightarrow> dcgm_field_entity_group_t \<Rightarrow> nat \<Rightarrow> uint32 \<Rightarrow> nat \<Rightarrow> int64
     \<Rightarrow> real \<Rightarrow> uint32 \<Rightarrow> dcgmReturn_t \<Rightarrow> dcgmReturn_t \<times> watch_request list" where
  "SetWatches_gpu_switch K p entityGroup eid systems watcher updateInterval maxKeepAge bitv tmpRet =
    (if bitv = health_bit K DCGM_HEALTH_WATCH_PCIE
        then SetPcie p entityGroup eid (systems AND bitv \<noteq> 0) watcher updateInterval maxKeepAge
        else if bitv = health_bit K DCGM_HEALTH_WATCH_MEM
        then SetMem p entityGroup eid (systems AND bitv \<noteq> 0) watcher updateInterval maxKeepAge
        else if bitv = health_bit K DCGM_HEALTH_WATCH_INFOROM
        then SetInforom p entityGroup eid (systems AND bitv \<noteq> 0) watcher updateInterval maxKeepAge
        else if bitv = health_bit K DCGM_HEALTH_WATCH_THERMAL
        then SetThermal p entityGroup eid (systems AND bitv \<noteq> 0) watcher updateInterval maxKeepAge
        else if bitv = health_bit K DCGM_HEALTH_WATCH_POWER
        then SetPower p entityGroup eid (systems AND bitv \<noteq> 0) watcher updateInterval maxKeepAge
        else if bitv = health_bit K DCGM_HEALTH_WATCH_NVLINK
        then SetNVLink p entityGroup eid (systems AND bitv \<noteq> 0) watcher updateInterval maxKeepAge
        else (tmpRet, []))"

definition SetWatches_cpu_switch ::
  "dcgm_consts \<Rightarrow> DcgmCoreProxy \<Rightarrow> dcgm_field_entity_group_t \<Rightarrow> nat \<Rightarrow> uint32 \<Rightarrow> nat \<Rightarrow> int64
     \<Rightarrow> real \<Rightarrow> uint32 \<Rightarrow> dcgmReturn_t \<Rightarrow> dcgmReturn_t \<times> watch_request list" where
  "SetWatches_cpu_switch K p entityGroup eid systems watcher updateInterval maxKeepAge bitv tmpRet =
    (if bitv = health_bit K DCGM_HEALTH_WATCH_THERMAL
        then SetCpuThermal p entityGroup eid (systems AND bitv \<noteq> 0) watcher updateInterval
               maxKeepAge
        else if bitv = health_bit K DCGM_HEALTH_WATCH_POWER
        then SetCpuPower p entityGroup eid (systems AND bitv \<noteq> 0) watcher updateInterval maxKeepAge
        else (tmpRet, []))"

text \<open>
  The bit loop, with \<^verbatim>\<open>bit = 1 << bitIndex\<close>: after every round a non-success \<^verbatim>\<open>tmpRet\<close>
  is logged and leaves the loop. \<open>step\<close> is the switch of the entity's class.
\<close>

fun SetWatches_bits ::
  "(uint32 \<Rightarrow> dcgmReturn_t \<Rightarrow> dcgmReturn_t \<times> watch_request list) \<Rightarrow> nat list \<Rightarrow> dcgmReturn_t
     \<Rightarrow> dcgmReturn_t \<times> watch_request list" where
  "SetWatches_bits step [] tmpRet = (tmpRet, [])"
| "SetWatches_bits step (bitIndex # rest) tmpRet =
    (case step (push_bit bitIndex 1) tmpRet of
     (tmpRet1, issued) \<Rightarrow>
       if tmpRet1 \<noteq> DCGM_ST_OK then (tmpRet1, issued)
       else (case SetWatches_bits step rest tmpRet1 of
             (tmpRet2, issued2) \<Rightarrow> (tmpRet2, issued @ issued2)))"

text \<open>
  The entity loop. \<^verbatim>\<open>tmpRet\<close> is declared once for the whole function and is carried from
  one entity to the next; switch ids are collected; links and other groups are skipped.
  The result: the last \<^verbatim>\<open>tmpRet\<close>, the switch ids and the requests issued.
\<close>

fun SetWatches_entities ::
  "dcgm_consts \<Rightarrow> DcgmCoreProxy \<Rightarrow> uint32 \<Rightarrow> nat \<Rightarrow> int64 \<Rightarrow> real \<Rightarrow> dcgmGroupEntityPair_t list
     \<Rightarrow> dcgmReturn_t \<Rightarrow> nat list \<Rightarrow> dcgmReturn_t \<times> nat list \<times> watch_request list" where
  "SetWatches_entities K p systems watcher updateInterval maxKeepAge [] tmpRet groupSwitchIds =
     (tmpRet, groupSwitchIds, [])"
| "SetWatches_entities K p systems watcher updateInterval maxKeepAge (entity # rest) tmpRet
       groupSwitchIds =
    (case (case fst entity of
             DCGM_FE_GPU \<Rightarrow>
               (case SetWatches_bits
                       (SetWatches_gpu_switch K p (fst entity) (snd entity) systems watcher
                          updateInterval maxKeepAge)
                       [0..<DCGM_HEALTH_WATCH_COUNT_V2 K] tmpRet of
                (t, issued) \<Rightarrow> (t, groupSwitchIds, issued))
           | DCGM_FE_GPU_I \<Rightarrow>
               (case SetWatches_bits
                       (SetWatches_gpu_switch K p (fst entity) (snd entity) systems watcher
                          updateInterval maxKeepAge)
                       [0..<DCGM_HEALTH_WATCH_COUNT_V2 K] tmpRet of
                (t, issued) \<Rightarrow> (t, groupSwitchIds, issued))
           | DCGM_FE_GPU_CI \<Rightarrow>
               (case SetWatches_bits
                       (SetWatches_gpu_switch K p (fst entity) (snd entity) systems watcher
                          updateInterval maxKeepAge)
                       [0..<DCGM_HEALTH_WATCH_COUNT_V2 K] tmpRet of
                (t, issued) \<Rightarrow> (t, groupSwitchIds, issued))
           | DCGM_FE_SWITCH \<Rightarrow> (tmpRet, groupSwitchIds @ [snd entity], [])
           | DCGM_FE_LINK \<Rightarrow> (tmpRet, groupSwitchIds, [])
           | DCGM_FE_CPU \<Rightarrow>
               (case SetWatches_bits
                       (SetWatches_cpu_switch K p (fst entity) (snd entity) systems watcher
                          updateInterval maxKeepAge)
                       [0..<DCGM_HEALTH_WATCH_COUNT_V2 K] tmpRet of
                (t, issued) \<Rightarrow> (t, groupSwitchIds, issued))
           | DCGM_FE_VGPU \<Rightarrow> (tmpRet, groupSwitchIds, [])) of
     (tmpRet1, groupSwitchIds1, issued1) \<Rightarrow>
       (case SetWatches_entities K p systems watcher updateInterval maxKeepAge rest tmpRet1
               groupSwitchIds1 of
        (tmpRet2, groupSwitchIds2, issued2) \<Rightarrow> (tmpRet2, groupSwitchIds2, issued1 @ issued2)))"

text \<open>
  What \<^verbatim>\<open>SetWatches\<close> does to the registry and to the proxy, in the order it does it.
\<close>

datatype hw_event =
    EvSetMask nat uint32
  | EvAddFieldWatch watch_request
  | EvUpdateAllFields

text \<open>
  \<^verbatim>\<open>SetWatches\<close>: the status, the object after the call and the trace of its effects.
  The returned \<^verbatim>\<open>ret\<close> is assigned by \<^verbatim>\<open>GetGroupEntities\<close>, by \<^verbatim>\<open>SetNvSwitchWatches\<close> when
  the group has switches, and by a failed \<^verbatim>\<open>UpdateAllFields\<close>; \<^verbatim>\<open>tmpRet\<close> of the entity loop
  is not assigned to it.
\<close>

definition SetWatches ::
  "dcgm_consts \<Rightarrow> DcgmCoreProxy \<Rightarrow> DcgmHealthWatch \<Rightarrow> nat \<Rightarrow> uint32 \<Rightarrow> nat \<Rightarrow> int64 \<Rightarrow> real
     \<Rightarrow> dcgmReturn_t \<times> DcgmHealthWatch \<times> hw_event list" where
  "SetWatches K p hw groupId systems connectionId updateInterval maxKeepAge =
    (let watcher = connectionId
     in case GetGroupEntities p groupId of
        (ret, entities) \<Rightarrow>
          if ret \<noteq> DCGM_ST_OK then (ret, hw, [])
          else
           (let hw1 = hw\<lparr>mGroupWatchState := (mGroupWatchState hw)(groupId \<mapsto> systems)\<rparr>
            in case SetWatches_entities K p systems watcher updateInterval maxKeepAge entities
                      DCGM_ST_OK [] of
               (tmpRet, groupSwitchIds, issued1) \<Rightarrow>
                 (case (if groupSwitchIds \<noteq> []
                        then SetNvSwitchWatches K p groupSwitchIds systems watcher updateInterval
                               maxKeepAge
                        else (ret, [])) of
                  (ret1, issued2) \<Rightarrow>
                    (let tmpRet1 = UpdateAllFields p 1;
                         ret2 = (if tmpRet1 \<noteq> DCGM_ST_OK then tmpRet1 else ret1)
                     in (ret2, hw1,
                         EvSetMask groupId systems # map EvAddFieldWatch (issued1 @ issued2)
                           @ [EvUpdateAllFields])))))"

text \<open>
  \<^verbatim>\<open>GetWatches\<close>: the status and the value written to \<^verbatim>\<open>*systems\<close> (\<open>None\<close> when the
  output is not written).
\<close>

definition GetWatches ::
  "DcgmCoreProxy \<Rightarrow> DcgmHealthWatch \<Rightarrow> nat \<Rightarrow> dcgmReturn_t \<times> uint32 option" where
  "GetWatches p hw groupId =
    (case GetGroupEntities p groupId of
     (ret, entities) \<Rightarrow>
       if ret \<noteq> DCGM_ST_OK then (ret, None)
       else (DCGM_ST_OK,
             Some (case mGroupWatchState hw groupId of None \<Rightarrow> 0 | Some systems \<Rightarrow> systems)))"

definition OnGroupRemove :: "DcgmHealthWatch \<Rightarrow> nat \<Rightarrow> DcgmHealthWatch" where
  "OnGroupRemove hw groupId =
    (case mGroupWatchState hw groupId of
       None \<Rightarrow> hw
     | Some systems \<Rightarrow> hw\<lparr>mGroupWatchState := (mGroupWatchState hw)(groupId := None)\<rparr>)"

definition ProcessXidFv :: "DcgmHealthWatch \<Rightarrow> dcgmBufferedFv_t \<Rightarrow> DcgmHealthWatch" where
  "ProcessXidFv hw fv =
    (if fvValue_i64 fv = 95
     then hw\<lparr>m_gpuHadUncontainedErrorXid := insert (fvEntityId fv) (m_gpuHadUncontainedErrorXid hw)\<rparr>
     else hw)"

definition OnFieldValuesUpdate :: "DcgmHealthWatch \<Rightarrow> dcgmBufferedFv_t list \<Rightarrow> DcgmHealthWatch" where
  "OnFieldValuesUpdate hw fvBuffer =
     foldl (\<lambda>h fv. if fvEntityGroupId fv \<noteq> DCGM_FE_GPU then h
                    else if fvFieldId fv = DCGM_FI_DEV_XID_ERRORS then ProcessXidFv h fv
                    else h)
       hw fvBuffer"

text \<open>
  The operations of the class as calls, and the object after a call. The evaluations and
  \<^verbatim>\<open>GetWatches\<close> read the object and leave it as it is.
\<close>

datatype hw_call =
    CallSetWatches nat uint32 nat int64 real
  | CallGetWatches nat
  | CallMonitorWatches nat int64 int64
  | CallMonitorWatchesForGpu nat int64 int64 uint32
  | CallOnGroupRemove nat
  | CallOnFieldValuesUpdate "dcgmBufferedFv_t list"

fun after_call :: "dcgm_consts \<Rightarrow> DcgmHealthWatch \<Rightarrow> DcgmCoreProxy \<times> hw_call \<Rightarrow> DcgmHealthWatch" where
  "after_call K hw (p, CallSetWatches groupId systems connectionId updateInterval maxKeepAge) =
     fst (snd (SetWatches K p hw groupId systems connectionId updateInterval maxKeepAge))"
| "after_call K hw (p, CallGetWatches groupId) = hw"
| "after_call K hw (p, CallMonitorWatches groupId startTime endTime) = hw"
| "after_call K hw (p, CallMonitorWatchesForGpu gpuId startTime endTime healthSystemsMask) = hw"
| "after_call K hw (p, CallOnGroupRemove groupId) = OnGroupRemove hw groupId"
| "after_call K hw (p, CallOnFieldValuesUpdate fvBuffer) = OnFieldValuesUpdate hw fvBuffer"

definition after_calls ::
  "dcgm_consts \<Rightarrow> DcgmHealthWatch \<Rightarrow> (DcgmCoreProxy \<times> hw_call) list \<Rightarrow> DcgmHealthWatch" where
  "after_calls K hw calls = foldl (after_call K) hw calls"

text \<open>
  The values of the public headers (\<^verbatim>\<open>dcgm_structs.h\<close>, \<^verbatim>\<open>dcgm_fields.h\<close>) of the release
  the source belongs to, as one instance of the constants, for concrete evaluation.
\<close>

definition dcgm_headers :: dcgm_consts where
  "dcgm_headers =
    \<lparr>health_bit = (\<lambda>s. case s of
         DCGM_HEALTH_WATCH_PCIE \<Rightarrow> 0x1
       | DCGM_HEALTH_WATCH_NVLINK \<Rightarrow> 0x2
       | DCGM_HEALTH_WATCH_PMU \<Rightarrow> 0x4
       | DCGM_HEALTH_WATCH_MCU \<Rightarrow> 0x8
       | DCGM_HEALTH_WATCH_MEM \<Rightarrow> 0x10
       | DCGM_HEALTH_WATCH_SM \<Rightarrow> 0x20
       | DCGM_HEALTH_WATCH_INFOROM \<Rightarrow> 0x40
       | DCGM_HEALTH_WATCH_THERMAL \<Rightarrow> 0x80
       | DCGM_HEALTH_WATCH_POWER \<Rightarrow> 0x100
       | DCGM_HEALTH_WATCH_DRIVER \<Rightarrow> 0x200
       | DCGM_HEALTH_WATCH_NVSWITCH_NONFATAL \<Rightarrow> 0x400
       | DCGM_HEALTH_WATCH_NVSWITCH_FATAL \<Rightarrow> 0x800),
     DCGM_HEALTH_WATCH_COUNT_V1 = 10,
     DCGM_HEALTH_WATCH_COUNT_V2 = 12,
     DCGM_MAX_NUM_DEVICES = 32,
     DCGM_LIMIT_MAX_PCIREPLAY_RATE = 100,
     DCGM_LIMIT_MAX_RETIRED_PAGES = 60,
     DCGM_LIMIT_MAX_RETIRED_PAGES_SOFT_LIMIT = 15,
     DCGM_LIMIT_MAX_NVLINK_ERROR = 1,
     DCGM_LIMIT_MAX_NVLINK_CRC_ERROR = 100,
     DCGM_INT64_IS_BLANK = (\<lambda>v. sint (0x7ffffffffffffff0 :: int64) \<le> sint v),
     DCGM_INT64_NOT_SUPPORTED = 0x7ffffffffffffff2,
     DCGM_FP64_IS_BLANK = (\<lambda>d. 140737488355328 \<le> d),
     DCGM_FP64_NOT_SUPPORTED = 140737488355330,
     DCGM_NVLINK_MAX_LINKS_PER_GPU = 18,
     DCGM_NVLINK_MAX_LINKS_PER_NVSWITCH = 64\<rparr>"

text \<open>
  The entity ids that a batch of field values marks as having had an uncontained error:
  its records of a GPU, of the XID field, with value 95. The other calls mark none.
\<close>

definition uncontained_ids :: "dcgmBufferedFv_t list \<Rightarrow> nat set" where
  "uncontained_ids fvBuffer =
     fvEntityId ` set (filter (\<lambda>fv. fvEntityGroupId fv = DCGM_FE_GPU
                                    \<and> fvFieldId fv = DCGM_FI_DEV_XID_ERRORS
                                    \<and> fvValue_i64 fv = 95) fvBuffer)"

fun call_uncontained_ids :: "hw_call \<Rightarrow> nat set" where
  "call_uncontained_ids (CallOnFieldValuesUpdate fvBuffer) = uncontained_ids fvBuffer"
| "call_uncontained_ids (CallSetWatches groupId systems connectionId updateInterval maxKeepAge) = {}"
| "call_uncontained_ids (CallGetWatches groupId) = {}"
| "call_uncontained_ids (CallMonitorWatches groupId startTime endTime) = {}"
| "call_uncontained_ids (CallMonitorWatchesForGpu gpuId startTime endTime healthSystemsMask) = {}"
| "call_uncontained_ids (CallOnGroupRemove groupId) = {}"

text \<open>
  The first non-success status of a list of statuses, success when there is none: the
  status the claims name for a run of evaluators.
\<close>

fun first_failure :: "dcgmReturn_t list \<Rightarrow> dcgmReturn_t" where
  "first_failure [] = DCGM_ST_OK"
| "first_failure (st # rest) = (if st \<noteq> DCGM_ST_OK then st else first_failure rest)"

text \<open>The health systems that \<^verbatim>\<open>MonitorWatchesForGpu\<close> has a case for.\<close>

definition gpu_systems :: "dcgmHealthSystems_enum list" where
  "gpu_systems = [DCGM_HEALTH_WATCH_PCIE, DCGM_HEALTH_WATCH_MEM, DCGM_HEALTH_WATCH_INFOROM,
                  DCGM_HEALTH_WATCH_THERMAL, DCGM_HEALTH_WATCH_POWER, DCGM_HEALTH_WATCH_NVLINK]"

text \<open>
  A concrete environment and object for evaluation: group 1 holds GPU 0, every watch is
  accepted, the refresh succeeds, the sample store has no data and every link is up.
\<close>

definition example_proxy :: DcgmCoreProxy where
  "example_proxy =
    \<lparr>GetGroupEntities =
       (\<lambda>groupId. if groupId = 1 then (DCGM_ST_OK, [(DCGM_FE_GPU, 0)]) else (DCGM_ST_BADPARAM, [])),
     AddFieldWatch = (\<lambda>r. DCGM_ST_OK),
     UpdateAllFields = (\<lambda>w. DCGM_ST_OK),
     GetSamples = (\<lambda>entityGroup eid f s e ord. (DCGM_ST_NO_DATA, None)),
     GetLatestSample = (\<lambda>entityGroup eid f. (DCGM_ST_NO_DATA, None)),
     GetEntityNvLinkLinkStatus = (\<lambda>entityGroup eid. (DCGM_ST_OK, \<lambda>i. DcgmNvLinkLinkStateNotDown)),
     timelib_usecSince1970 = 1700000000000000\<rparr>"

definition example_hw :: DcgmHealthWatch where
  "example_hw = \<lparr>mGroupWatchState = Map.empty, m_gpuHadUncontainedErrorXid = {}\<rparr>"

text \<open>
  Sample stores for evaluation: one that holds the latest retired-page counts (SBE, DBE) and
  the DBE count of a week ago (which the code asks for with start time 0), and one that holds
  the earliest and the latest value of one counter.
\<close>

definition retired_pages_proxy :: "int64 \<Rightarrow> int64 \<Rightarrow> int64 \<Rightarrow> DcgmCoreProxy" where
  "retired_pages_proxy sbe dbe weekAgo =
     example_proxy\<lparr>GetSamples := (\<lambda>entityGroup eid f s e ord.
        if f = DCGM_FI_DEV_RETIRED_SBE then (DCGM_ST_OK, Some \<lparr>val_i64 = sbe, val_d = 0\<rparr>)
        else if f = DCGM_FI_DEV_RETIRED_DBE
        then (DCGM_ST_OK, Some \<lparr>val_i64 = (if s = 0 then weekAgo else dbe), val_d = 0\<rparr>)
        else (DCGM_ST_NO_DATA, None))\<rparr>"

definition counter_proxy :: "dcgm_field_id \<Rightarrow> int64 \<Rightarrow> int64 \<Rightarrow> DcgmCoreProxy" where
  "counter_proxy field earliest latest =
     example_proxy\<lparr>GetSamples := (\<lambda>entityGroup eid f s e ord.
        if f = field
        then (DCGM_ST_OK,
              Some \<lparr>val_i64 = (if ord = DCGM_ORDER_ASCENDING then earliest else latest), val_d = 0\<rparr>)
        else (DCGM_ST_NO_DATA, None))\<rparr>"

text \<open>
  A sample store that holds timestamped samples of one field and answers a window query with
  the earliest or the latest sample in the window; an end time of 0 leaves the window open.
  The samples of the example are a replay count of 0 fifty seconds before the clock of the
  example environment and a count of 101 ten seconds before it.
\<close>

definition window_proxy :: "dcgm_field_id \<Rightarrow> (int64 \<times> int64) list \<Rightarrow> DcgmCoreProxy" where
  "window_proxy field samples =
     example_proxy\<lparr>GetSamples := (\<lambda>entityGroup eid f s e ord.
        if f \<noteq> field then (DCGM_ST_NO_DATA, None)
        else (case filter (\<lambda>x. sint s \<le> sint (fst x) \<and> (e = 0 \<or> sint (fst x) \<le> sint e))
                     samples of
                [] \<Rightarrow> (DCGM_ST_NO_DATA, None)
              | x # xs \<Rightarrow>
                  (DCGM_ST_OK,
                   Some \<lparr>val_i64 = snd (if ord = DCGM_ORDER_ASCENDING then x else last (x # xs)),
                         val_d = 0\<rparr>)))\<rparr>"

definition replay_samples :: "(int64 \<times> int64) list" where
  "replay_samples = [(1699999950000000, 0), (1699999990000000, 101)]"

text \<open>
  A sample store whose latest sample of every field is the blank double (2 to the power 47);
  its integer view is the bit pattern of that double, which is not a blank integer.
\<close>

definition blank_double_proxy :: DcgmCoreProxy where
  "blank_double_proxy =
     example_proxy\<lparr>GetLatestSample := (\<lambda>entityGroup eid f.
        (DCGM_ST_OK, Some \<lparr>val_i64 = 0x42E0000000000000, val_d = 140737488355328\<rparr>))\<rparr>"

text \<open>
  The environment in which no call to the sample store or to the link-state query fails,
  for one entity.
\<close>

definition all_calls_succeed :: "DcgmCoreProxy \<Rightarrow> dcgm_field_entity_group_t \<Rightarrow> nat \<Rightarrow> bool" where
  "all_calls_succeed p entityGroup eid =
     ((\<forall>f s e ord. fst (GetSamples p entityGroup eid f s e ord) = DCGM_ST_OK)
      \<and> (\<forall>f. fst (GetLatestSample p entityGroup eid f) = DCGM_ST_OK)
      \<and> (\<forall>g. fst (GetEntityNvLinkLinkStatus p g eid) = DCGM_ST_OK))"




text \<open>
  A sample store in which the PCIe replay counter went from 0 to 101 in the window and the
  read of the volatile DBE count fails with status -7.
\<close>

definition pcie_mem_proxy :: DcgmCoreProxy where
  "pcie_mem_proxy =
     example_proxy\<lparr>GetSamples := (\<lambda>entityGroup eid f s e ord.
        if f = DCGM_FI_DEV_PCIE_REPLAY_COUNTER
        then (DCGM_ST_OK,
              Some \<lparr>val_i64 = (if ord = DCGM_ORDER_ASCENDING then 0 else 101), val_d = 0\<rparr>)
        else if f = DCGM_FI_DEV_ECC_DBE_VOL_TOTAL then (DCGM_ST_OTHER (- 7), None)
        else (DCGM_ST_NO_DATA, None))\<rparr>"

text \<open>
  A batch with the fatal XID 95 for GPU 3, and a sequence of calls around its ingestion.
\<close>

definition example_fv :: dcgmBufferedFv_t where
  "example_fv = \<lparr>fvEntityGroupId = DCGM_FE_GPU, fvEntityId = 3,
                  fvFieldId = DCGM_FI_DEV_XID_ERRORS, fvValue_i64 = 95\<rparr>"

definition example_calls :: "(DcgmCoreProxy \<times> hw_call) list" where
  "example_calls =
     [(example_proxy, CallSetWatches 1 0x10 0 1000000 3600),
      (example_proxy, CallOnFieldValuesUpdate [example_fv]),
      (example_proxy, CallOnGroupRemove 1),
      (example_proxy, CallMonitorWatches 1 0 0)]"

section \<open>Evaluators only append to the response\<close>

text \<open>
  Every evaluator leaves the incidents already in the response in place and appends its
  own; its status and its own incidents do not depend on what the response held before.
\<close>

lemma MonitorPcie_response:
  "MonitorPcie K p eg eid s e (r @ r')
     = (fst (MonitorPcie K p eg eid s e r'), r @ snd (MonitorPcie K p eg eid s e r'))"
  by (simp add: MonitorPcie_def SetResponse_def Let_def split: prod.splits)

lemma MonitorMemVolatileDbes_response:
  "MonitorMemVolatileDbes K p eg eid s e (r @ r')
     = (fst (MonitorMemVolatileDbes K p eg eid s e r'), r @ snd (MonitorMemVolatileDbes K p eg eid s e r'))"
  by (simp add: MonitorMemVolatileDbes_def SetResponse_def Let_def split: prod.splits)

lemma MonitorMemRetiredPending_response:
  "MonitorMemRetiredPending K p eg eid s e (r @ r')
     = (fst (MonitorMemRetiredPending K p eg eid s e r'), r @ snd (MonitorMemRetiredPending K p eg eid s e r'))"
  by (simp add: MonitorMemRetiredPending_def SetResponse_def Let_def split: prod.splits)

lemma MonitorMemSbeDbeRetiredPages_response:
  "MonitorMemSbeDbeRetiredPages K p eg eid s e (r @ r')
     = (fst (MonitorMemSbeDbeRetiredPages K p eg eid s e r'), r @ snd (MonitorMemSbeDbeRetiredPages K p eg eid s e r'))"
  by (simp add: MonitorMemSbeDbeRetiredPages_def SetResponse_def Let_def split: prod.splits)

lemma MonitorMemRowRemapFailures_response:
  "MonitorMemRowRemapFailures K p eg eid s e (r @ r')
     = (fst (MonitorMemRowRemapFailures K p eg eid s e r'), r @ snd (MonitorMemRowRemapFailures K p eg eid s e r'))"
  by (simp add: MonitorMemRowRemapFailures_def SetResponse_def Let_def split: prod.splits)

lemma MonitorUncontainedErrors_response:
  "MonitorUncontainedErrors hw eg eid s e (r @ r')
     = (fst (MonitorUncontainedErrors hw eg eid s e r'), r @ snd (MonitorUncontainedErrors hw eg eid s e r'))"
  by (simp add: MonitorUncontainedErrors_def SetResponse_def)

lemma MonitorMem_response:
  "MonitorMem K p hw eg eid s e (r @ r')
     = (fst (MonitorMem K p hw eg eid s e r'), r @ snd (MonitorMem K p hw eg eid s e r'))"
  by (simp add: MonitorMem_def Let_def case_prod_beta MonitorMemVolatileDbes_response
        MonitorMemRetiredPending_response MonitorMemSbeDbeRetiredPages_response
        MonitorMemRowRemapFailures_response MonitorUncontainedErrors_response)

lemma MonitorInforom_response:
  "MonitorInforom K p eg eid s e (r @ r')
     = (fst (MonitorInforom K p eg eid s e r'), r @ snd (MonitorInforom K p eg eid s e r'))"
  by (simp add: MonitorInforom_def SetResponse_def Let_def split: prod.splits)

lemma MonitorThermal_response:
  "MonitorThermal K p eg eid s e (r @ r')
     = (fst (MonitorThermal K p eg eid s e r'), r @ snd (MonitorThermal K p eg eid s e r'))"
  by (simp add: MonitorThermal_def SetResponse_def Let_def split: prod.splits)

lemma MonitorPower_usage_response:
  "MonitorPower_usage K p eg eid (r @ r') = r @ MonitorPower_usage K p eg eid r'"
  by (simp add: MonitorPower_usage_def SetResponse_def split: prod.splits)

lemma MonitorPower_response:
  "MonitorPower K p eg eid s e (r @ r')
     = (fst (MonitorPower K p eg eid s e r'), r @ snd (MonitorPower K p eg eid s e r'))"
  by (simp add: MonitorPower_def MonitorPower_usage_response SetResponse_def Let_def split: prod.splits)

lemma MonitorCpuThermal_response:
  "MonitorCpuThermal K p eg eid s e (r @ r')
     = (fst (MonitorCpuThermal K p eg eid s e r'), r @ snd (MonitorCpuThermal K p eg eid s e r'))"
  by (simp add: MonitorCpuThermal_def SetResponse_def Let_def split: prod.splits sum.splits)

lemma MonitorCpuPower_response:
  "MonitorCpuPower K p eg eid s e (r @ r')
     = (fst (MonitorCpuPower K p eg eid s e r'), r @ snd (MonitorCpuPower K p eg eid s e r'))"
  by (simp add: MonitorCpuPower_def SetResponse_def Let_def split: prod.splits sum.splits)

lemma MonitorNVLink_fields_response:
  "MonitorNVLink_fields K p eg eid now s e fs sv ev (r @ r')
     = (fst (MonitorNVLink_fields K p eg eid now s e fs sv ev r'),
        r @ snd (MonitorNVLink_fields K p eg eid now s e fs sv ev r'))"
  by (induction fs arbitrary: sv ev r')
     (simp_all add: SetResponse_def Let_def split: prod.splits)

lemma LinksDown_response:
  "LinksDown eg eid st sys ls n (r @ r') = r @ LinksDown eg eid st sys ls n r'"
  unfolding LinksDown_def
  by (induction n) (simp_all add: SetResponse_def)

lemma MonitorNVLink_response:
  "MonitorNVLink K p eg eid s e (r @ r')
     = (fst (MonitorNVLink K p eg eid s e r'), r @ snd (MonitorNVLink K p eg eid s e r'))"
  by (simp add: MonitorNVLink_def Let_def MonitorNVLink_fields_response LinksDown_response
        case_prod_beta del: MonitorNVLink_fields.simps split: option.splits)

lemma MonitorNvSwitch_fields_response:
  "MonitorNvSwitch_fields K p fatal eg eid s e fs sv (r @ r')
     = r @ MonitorNvSwitch_fields K p fatal eg eid s e fs sv r'"
  by (induction fs arbitrary: sv r' fatal)
     (simp_all add: SetResponse_def Let_def split: prod.splits)

lemma MonitorNvSwitchErrorCounts_response:
  "MonitorNvSwitchErrorCounts K p fatal eg eid s e (r @ r')
     = (fst (MonitorNvSwitchErrorCounts K p fatal eg eid s e r'),
        r @ snd (MonitorNvSwitchErrorCounts K p fatal eg eid s e r'))"
  by (simp add: MonitorNvSwitchErrorCounts_def Let_def MonitorNvSwitch_fields_response
        LinksDown_response split: prod.splits)

section \<open>The incidents an evaluator raises\<close>

text \<open>
  The incidents of an evaluator all carry the health system of that evaluator. For the
  memory evaluator they are those of its five sub-checks in order, and the only one with the
  uncontained-error code is that of the last sub-check.
\<close>

lemma MonitorPcie_system:
  "\<forall>i \<in> set (snd (MonitorPcie K p eg eid s e [])). incSystem i = DCGM_HEALTH_WATCH_PCIE"
  by (simp add: MonitorPcie_def SetResponse_def Let_def split: prod.splits)

lemma MonitorMem_incidents:
  "snd (MonitorMem K p hw eg eid s e [])
     = snd (MonitorMemVolatileDbes K p eg eid (UpdateStartTime p s) e [])
       @ snd (MonitorMemRetiredPending K p eg eid (UpdateStartTime p s) e [])
       @ snd (MonitorMemSbeDbeRetiredPages K p eg eid (UpdateStartTime p s) e [])
       @ snd (MonitorMemRowRemapFailures K p eg eid (UpdateStartTime p s) e [])
       @ snd (MonitorUncontainedErrors hw eg eid (UpdateStartTime p s) e [])"
proof -
  define st where "st = UpdateStartTime p s"
  define a2 where "a2 = fst (MonitorMemRetiredPending K p eg eid st e [])"
  define n2 where "n2 = snd (MonitorMemRetiredPending K p eg eid st e [])"
  define a3 where "a3 = fst (MonitorMemSbeDbeRetiredPages K p eg eid st e [])"
  define n3 where "n3 = snd (MonitorMemSbeDbeRetiredPages K p eg eid st e [])"
  define a4 where "a4 = fst (MonitorMemRowRemapFailures K p eg eid st e [])"
  define n4 where "n4 = snd (MonitorMemRowRemapFailures K p eg eid st e [])"
  define a5 where "a5 = fst (MonitorUncontainedErrors hw eg eid st e [])"
  define n5 where "n5 = snd (MonitorUncontainedErrors hw eg eid st e [])"
  have r2: "MonitorMemRetiredPending K p eg eid st e r = (a2, r @ n2)" for r
    unfolding a2_def n2_def using MonitorMemRetiredPending_response [of K p eg eid st e r "[]"]
    by simp
  have r3: "MonitorMemSbeDbeRetiredPages K p eg eid st e r = (a3, r @ n3)" for r
    unfolding a3_def n3_def using MonitorMemSbeDbeRetiredPages_response [of K p eg eid st e r "[]"]
    by simp
  have r4: "MonitorMemRowRemapFailures K p eg eid st e r = (a4, r @ n4)" for r
    unfolding a4_def n4_def using MonitorMemRowRemapFailures_response [of K p eg eid st e r "[]"]
    by simp
  have r5: "MonitorUncontainedErrors hw eg eid st e r = (a5, r @ n5)" for r
    unfolding a5_def n5_def using MonitorUncontainedErrors_response [of hw eg eid st e r "[]"]
    by simp
  show ?thesis
    unfolding MonitorMem_def Let_def st_def [symmetric]
    by (simp add: r2 r3 r4 r5 case_prod_beta)
qed

lemma MonitorMemVolatileDbes_system:
  "\<forall>i \<in> set (snd (MonitorMemVolatileDbes K p eg eid s e [])).
     incSystem i = DCGM_HEALTH_WATCH_MEM \<and> incCode i \<noteq> DCGM_FR_UNCONTAINED_ERROR"
  by (simp add: MonitorMemVolatileDbes_def SetResponse_def Let_def split: prod.splits)

lemma MonitorMemRetiredPending_system:
  "\<forall>i \<in> set (snd (MonitorMemRetiredPending K p eg eid s e [])).
     incSystem i = DCGM_HEALTH_WATCH_MEM \<and> incCode i \<noteq> DCGM_FR_UNCONTAINED_ERROR"
  by (simp add: MonitorMemRetiredPending_def SetResponse_def Let_def split: prod.splits)

lemma MonitorMemSbeDbeRetiredPages_system:
  "\<forall>i \<in> set (snd (MonitorMemSbeDbeRetiredPages K p eg eid s e [])).
     incSystem i = DCGM_HEALTH_WATCH_MEM \<and> incCode i \<noteq> DCGM_FR_UNCONTAINED_ERROR"
  by (simp add: MonitorMemSbeDbeRetiredPages_def SetResponse_def Let_def split: prod.splits)

lemma MonitorMemRowRemapFailures_system:
  "\<forall>i \<in> set (snd (MonitorMemRowRemapFailures K p eg eid s e [])).
     incSystem i = DCGM_HEALTH_WATCH_MEM \<and> incCode i \<noteq> DCGM_FR_UNCONTAINED_ERROR"
  by (simp add: MonitorMemRowRemapFailures_def SetResponse_def Let_def split: prod.splits)

lemma MonitorUncontainedErrors_incidents:
  "snd (MonitorUncontainedErrors hw eg eid s e [])
     = (if eg = DCGM_FE_GPU \<and> eid \<in> m_gpuHadUncontainedErrorXid hw
        then [\<lparr>incSystem = DCGM_HEALTH_WATCH_MEM, incHealth = DCGM_HEALTH_RESULT_FAIL,
               incCode = DCGM_FR_UNCONTAINED_ERROR, incEntityGroupId = eg, incEntityId = eid\<rparr>]
        else [])"
  by (simp add: MonitorUncontainedErrors_def SetResponse_def)

lemma MonitorMem_system:
  "\<forall>i \<in> set (snd (MonitorMem K p hw eg eid s e [])). incSystem i = DCGM_HEALTH_WATCH_MEM"
  using MonitorMemVolatileDbes_system [of K p eg eid "UpdateStartTime p s" e]
        MonitorMemRetiredPending_system [of K p eg eid "UpdateStartTime p s" e]
        MonitorMemSbeDbeRetiredPages_system [of K p eg eid "UpdateStartTime p s" e]
        MonitorMemRowRemapFailures_system [of K p eg eid "UpdateStartTime p s" e]
  by (auto simp: MonitorMem_incidents MonitorUncontainedErrors_incidents)

lemma MonitorMem_uncontained:
  "filter (\<lambda>i. incCode i = DCGM_FR_UNCONTAINED_ERROR) (snd (MonitorMem K p hw eg eid s e []))
     = (if eg = DCGM_FE_GPU \<and> eid \<in> m_gpuHadUncontainedErrorXid hw
        then [\<lparr>incSystem = DCGM_HEALTH_WATCH_MEM, incHealth = DCGM_HEALTH_RESULT_FAIL,
               incCode = DCGM_FR_UNCONTAINED_ERROR, incEntityGroupId = eg, incEntityId = eid\<rparr>]
        else [])"
  using MonitorMemVolatileDbes_system [of K p eg eid "UpdateStartTime p s" e]
        MonitorMemRetiredPending_system [of K p eg eid "UpdateStartTime p s" e]
        MonitorMemSbeDbeRetiredPages_system [of K p eg eid "UpdateStartTime p s" e]
        MonitorMemRowRemapFailures_system [of K p eg eid "UpdateStartTime p s" e]
  by (simp add: MonitorMem_incidents MonitorUncontainedErrors_incidents filter_empty_conv)

lemma MonitorInforom_system:
  "\<forall>i \<in> set (snd (MonitorInforom K p eg eid s e [])). incSystem i = DCGM_HEALTH_WATCH_INFOROM"
  by (simp add: MonitorInforom_def SetResponse_def Let_def split: prod.splits)

lemma MonitorThermal_system:
  "\<forall>i \<in> set (snd (MonitorThermal K p eg eid s e [])). incSystem i = DCGM_HEALTH_WATCH_THERMAL"
  by (simp add: MonitorThermal_def SetResponse_def Let_def split: prod.splits)

lemma MonitorPower_usage_cases:
  "MonitorPower_usage K p eg eid r = r
   \<or> MonitorPower_usage K p eg eid r
       = r @ [\<lparr>incSystem = DCGM_HEALTH_WATCH_POWER, incHealth = DCGM_HEALTH_RESULT_WARN,
                incCode = DCGM_FR_POWER_UNREADABLE, incEntityGroupId = eg, incEntityId = eid\<rparr>]"
  by (simp add: MonitorPower_usage_def SetResponse_def case_prod_beta)

lemma MonitorPower_usage_system:
  "\<forall>i \<in> set (MonitorPower_usage K p eg eid []). incSystem i = DCGM_HEALTH_WATCH_POWER"
  using MonitorPower_usage_cases [of K p eg eid "[]"] by auto

lemma MonitorPower_system:
  "\<forall>i \<in> set (snd (MonitorPower K p eg eid s e [])). incSystem i = DCGM_HEALTH_WATCH_POWER"
  using MonitorPower_usage_system [of K p eg eid]
  by (simp add: MonitorPower_def SetResponse_def Let_def split: prod.splits)

lemma MonitorNVLink_fields_system:
  "\<forall>i \<in> set r. incSystem i = DCGM_HEALTH_WATCH_NVLINK \<Longrightarrow>
   \<forall>i \<in> set (snd (MonitorNVLink_fields K p eg eid now s e fs sv ev r)).
     incSystem i = DCGM_HEALTH_WATCH_NVLINK"
proof (induction fs arbitrary: sv ev r)
  case Nil
  then show ?case by simp
next
  case (Cons f fs)
  have ext: "\<forall>i \<in> set (SetResponse eg eid res DCGM_HEALTH_WATCH_NVLINK d r).
               incSystem i = DCGM_HEALTH_WATCH_NVLINK" for res d
    using Cons.prems by (simp add: SetResponse_def)
  show ?case
    using Cons.IH [OF Cons.prems] Cons.IH [OF ext] Cons.prems
    by (simp add: Let_def case_prod_beta)
qed

lemma LinksDown_system:
  "\<forall>i \<in> set r. incSystem i = sys \<Longrightarrow>
   \<forall>i \<in> set (LinksDown eg eid st sys ls n r). incSystem i = sys"
  unfolding LinksDown_def
  by (induction n) (simp_all add: SetResponse_def)

lemma MonitorNVLink_system:
  "\<forall>i \<in> set (snd (MonitorNVLink K p eg eid s e [])). incSystem i = DCGM_HEALTH_WATCH_NVLINK"
proof -
  let ?l = "MonitorNVLink_fields K p eg eid (timelib_usecSince1970 p) (UpdateStartTime p s) e
              [DCGM_FI_DEV_NVLINK_CRC_FLIT_ERROR_COUNT_TOTAL,
               DCGM_FI_DEV_NVLINK_CRC_DATA_ERROR_COUNT_TOTAL,
               DCGM_FI_DEV_NVLINK_REPLAY_ERROR_COUNT_TOTAL,
               DCGM_FI_DEV_NVLINK_RECOVERY_ERROR_COUNT_TOTAL] zero_sample zero_sample []"
  have l: "\<forall>i \<in> set (snd ?l). incSystem i = DCGM_HEALTH_WATCH_NVLINK"
    by (rule MonitorNVLink_fields_system) simp
  show ?thesis
    using l LinksDown_system [OF l]
    by (simp add: MonitorNVLink_def Let_def case_prod_beta del: MonitorNVLink_fields.simps
          split: option.splits)
qed

section \<open>The single-device path\<close>

lemma MonitorWatchesForGpu_switch_response:
  "MonitorWatchesForGpu_switch K p hw gpuId s e m b (r @ r')
     = (fst (MonitorWatchesForGpu_switch K p hw gpuId s e m b r'),
        r @ snd (MonitorWatchesForGpu_switch K p hw gpuId s e m b r'))"
  by (simp add: MonitorWatchesForGpu_switch_def MonitorPcie_response MonitorMem_response
        MonitorInforom_response MonitorThermal_response MonitorPower_response
        MonitorNVLink_response)

lemma MonitorWatchesForGpu_switch_status:
  "fst (MonitorWatchesForGpu_switch K p hw gpuId s e m b r)
     = fst (MonitorWatchesForGpu_switch K p hw gpuId s e m b [])"
  using MonitorWatchesForGpu_switch_response [of K p hw gpuId s e m b r "[]"] by simp

lemma MonitorWatchesForGpu_loop_response:
  "MonitorWatchesForGpu_loop K p hw gpuId s e m idxs ret (r @ r')
     = (fst (MonitorWatchesForGpu_loop K p hw gpuId s e m idxs ret r'),
        r @ snd (MonitorWatchesForGpu_loop K p hw gpuId s e m idxs ret r'))"
  by (induction idxs arbitrary: ret r')
     (simp_all add: MonitorWatchesForGpu_switch_response case_prod_beta)

lemma MonitorWatchesForGpu_loop_status:
  "fst (MonitorWatchesForGpu_loop K p hw gpuId s e m idxs ret r)
     = (if ret \<noteq> DCGM_ST_OK then ret
        else first_failure
               (map (\<lambda>index. fst (MonitorWatchesForGpu_switch K p hw gpuId s e m
                                      (push_bit index 1) [])) idxs))"
proof (induction idxs arbitrary: ret r)
  case Nil
  then show ?case by simp
next
  case (Cons index rest)
  show ?case
    using MonitorWatchesForGpu_switch_status [of K p hw gpuId s e m "push_bit index 1" r]
    by (simp add: Cons.IH case_prod_beta)
qed

lemma MonitorWatchesForGpu_switch_mask:
  assumes "\<forall>sys \<in> set gpu_systems. m1 AND health_bit K sys = m2 AND health_bit K sys"
  shows "MonitorWatchesForGpu_switch K p hw gpuId s e m1 b r
           = MonitorWatchesForGpu_switch K p hw gpuId s e m2 b r"
proof -
  have "\<And>sys. sys \<in> set gpu_systems \<Longrightarrow> health_bit K sys AND m1 = health_bit K sys AND m2"
    using assms by (simp add: and.commute)
  then show ?thesis
    by (simp add: MonitorWatchesForGpu_switch_def gpu_systems_def)
qed

lemma MonitorWatchesForGpu_loop_mask:
  assumes "\<forall>sys \<in> set gpu_systems. m1 AND health_bit K sys = m2 AND health_bit K sys"
  shows "MonitorWatchesForGpu_loop K p hw gpuId s e m1 idxs ret r
           = MonitorWatchesForGpu_loop K p hw gpuId s e m2 idxs ret r"
  by (induction idxs arbitrary: ret r)
     (simp_all add: MonitorWatchesForGpu_switch_mask [OF assms] case_prod_beta)

lemma MonitorWatchesForGpu_switch_select:
  "MonitorWatchesForGpu_switch K p hw gpuId s e m b r = MonitorPcie K p DCGM_FE_GPU gpuId s e r
   \<or> MonitorWatchesForGpu_switch K p hw gpuId s e m b r = MonitorMem K p hw DCGM_FE_GPU gpuId s e r
   \<or> MonitorWatchesForGpu_switch K p hw gpuId s e m b r = MonitorInforom K p DCGM_FE_GPU gpuId s e r
   \<or> MonitorWatchesForGpu_switch K p hw gpuId s e m b r = MonitorThermal K p DCGM_FE_GPU gpuId s e r
   \<or> MonitorWatchesForGpu_switch K p hw gpuId s e m b r = MonitorPower K p DCGM_FE_GPU gpuId s e r
   \<or> MonitorWatchesForGpu_switch K p hw gpuId s e m b r = MonitorNVLink K p DCGM_FE_GPU gpuId s e r
   \<or> MonitorWatchesForGpu_switch K p hw gpuId s e m b r = (DCGM_ST_OK, r)"
  by (simp add: MonitorWatchesForGpu_switch_def)

lemma MonitorWatchesForGpu_switch_system:
  "\<forall>i \<in> set (snd (MonitorWatchesForGpu_switch K p hw gpuId s e m b [])).
     incSystem i \<in> set gpu_systems"
  using MonitorWatchesForGpu_switch_select [of K p hw gpuId s e m b "[]"]
proof (elim disjE)
  assume "MonitorWatchesForGpu_switch K p hw gpuId s e m b [] = MonitorPcie K p DCGM_FE_GPU gpuId s e []"
  then show ?thesis
    using MonitorPcie_system [of K p DCGM_FE_GPU gpuId s e] by (simp add: gpu_systems_def)
next
  assume "MonitorWatchesForGpu_switch K p hw gpuId s e m b [] = MonitorMem K p hw DCGM_FE_GPU gpuId s e []"
  then show ?thesis
    using MonitorMem_system [of K p hw DCGM_FE_GPU gpuId s e] by (simp add: gpu_systems_def)
next
  assume "MonitorWatchesForGpu_switch K p hw gpuId s e m b [] = MonitorInforom K p DCGM_FE_GPU gpuId s e []"
  then show ?thesis
    using MonitorInforom_system [of K p DCGM_FE_GPU gpuId s e] by (simp add: gpu_systems_def)
next
  assume "MonitorWatchesForGpu_switch K p hw gpuId s e m b [] = MonitorThermal K p DCGM_FE_GPU gpuId s e []"
  then show ?thesis
    using MonitorThermal_system [of K p DCGM_FE_GPU gpuId s e] by (simp add: gpu_systems_def)
next
  assume "MonitorWatchesForGpu_switch K p hw gpuId s e m b [] = MonitorPower K p DCGM_FE_GPU gpuId s e []"
  then show ?thesis
    using MonitorPower_system [of K p DCGM_FE_GPU gpuId s e] by (simp add: gpu_systems_def)
next
  assume "MonitorWatchesForGpu_switch K p hw gpuId s e m b [] = MonitorNVLink K p DCGM_FE_GPU gpuId s e []"
  then show ?thesis
    using MonitorNVLink_system [of K p DCGM_FE_GPU gpuId s e] by (simp add: gpu_systems_def)
next
  assume "MonitorWatchesForGpu_switch K p hw gpuId s e m b [] = (DCGM_ST_OK, [])"
  then show ?thesis by simp
qed

lemma MonitorWatchesForGpu_loop_system:
  "\<forall>i \<in> set r. incSystem i \<in> set gpu_systems \<Longrightarrow>
   \<forall>i \<in> set (snd (MonitorWatchesForGpu_loop K p hw gpuId s e m idxs ret r)).
     incSystem i \<in> set gpu_systems"
proof (induction idxs arbitrary: ret r)
  case Nil
  then show ?case by simp
next
  case (Cons index rest)
  have "\<forall>i \<in> set (snd (MonitorWatchesForGpu_switch K p hw gpuId s e m (push_bit index 1) r)).
          incSystem i \<in> set gpu_systems"
    using MonitorWatchesForGpu_switch_response [of K p hw gpuId s e m "push_bit index 1" r "[]"]
          MonitorWatchesForGpu_switch_system [of K p hw gpuId s e m "push_bit index 1"] Cons.prems
    by auto
  then show ?case
    by (simp add: case_prod_beta Cons.IH)
qed

text \<open>
  The incidents of the loop are those of its rounds, in order. With the health bits and the
  version-1 count of the header, the ten rounds are the six evaluators, each run when its bit
  is in the mask, and four rounds that do nothing.
\<close>

lemma MonitorWatchesForGpu_loop_incidents:
  "snd (MonitorWatchesForGpu_loop K p hw gpuId s e m idxs ret r)
     = r @ concat (map (\<lambda>index. snd (MonitorWatchesForGpu_switch K p hw gpuId s e m
                                          (push_bit index 1) [])) idxs)"
proof (induction idxs arbitrary: ret r)
  case Nil
  then show ?case by simp
next
  case (Cons index rest)
  show ?case
    using MonitorWatchesForGpu_switch_response [of K p hw gpuId s e m "push_bit index 1" r "[]"]
    by (simp add: Cons.IH case_prod_beta)
qed

lemma MonitorWatchesForGpu_rounds:
  assumes "DCGM_HEALTH_WATCH_COUNT_V1 K = 10"
      and "health_bit K DCGM_HEALTH_WATCH_PCIE = 0x1"
      and "health_bit K DCGM_HEALTH_WATCH_NVLINK = 0x2"
      and "health_bit K DCGM_HEALTH_WATCH_MEM = 0x10"
      and "health_bit K DCGM_HEALTH_WATCH_INFOROM = 0x40"
      and "health_bit K DCGM_HEALTH_WATCH_THERMAL = 0x80"
      and "health_bit K DCGM_HEALTH_WATCH_POWER = 0x100"
  shows "map (\<lambda>index. MonitorWatchesForGpu_switch K p hw gpuId s e m (push_bit index 1) [])
           [0..<DCGM_HEALTH_WATCH_COUNT_V1 K]
         = [if m AND health_bit K DCGM_HEALTH_WATCH_PCIE \<noteq> 0
            then MonitorPcie K p DCGM_FE_GPU gpuId s e [] else (DCGM_ST_OK, []),
            if m AND health_bit K DCGM_HEALTH_WATCH_NVLINK \<noteq> 0
            then MonitorNVLink K p DCGM_FE_GPU gpuId s e [] else (DCGM_ST_OK, []),
            (DCGM_ST_OK, []),
            (DCGM_ST_OK, []),
            if m AND health_bit K DCGM_HEALTH_WATCH_MEM \<noteq> 0
            then MonitorMem K p hw DCGM_FE_GPU gpuId s e [] else (DCGM_ST_OK, []),
            (DCGM_ST_OK, []),
            if m AND health_bit K DCGM_HEALTH_WATCH_INFOROM \<noteq> 0
            then MonitorInforom K p DCGM_FE_GPU gpuId s e [] else (DCGM_ST_OK, []),
            if m AND health_bit K DCGM_HEALTH_WATCH_THERMAL \<noteq> 0
            then MonitorThermal K p DCGM_FE_GPU gpuId s e [] else (DCGM_ST_OK, []),
            if m AND health_bit K DCGM_HEALTH_WATCH_POWER \<noteq> 0
            then MonitorPower K p DCGM_FE_GPU gpuId s e [] else (DCGM_ST_OK, []),
            (DCGM_ST_OK, [])]"
proof -
  have idx: "[0..<10] = [0, 1, 2, 3, 4, 5, 6, 7, 8, 9 :: nat]"
    by code_simp
  show ?thesis
    by (simp add: assms idx MonitorWatchesForGpu_switch_def and.commute)
qed

section \<open>SetWatches and GetWatches: the registry\<close>

lemma SetWatches_resolved:
  assumes "fst (GetGroupEntities p groupId) = DCGM_ST_OK"
  shows "fst (snd (SetWatches K p hw groupId systems connectionId updateInterval maxKeepAge))
           = hw\<lparr>mGroupWatchState := (mGroupWatchState hw)(groupId \<mapsto> systems)\<rparr>"
    and "\<exists>issued. snd (snd (SetWatches K p hw groupId systems connectionId updateInterval maxKeepAge))
           = EvSetMask groupId systems # map EvAddFieldWatch issued @ [EvUpdateAllFields]"
  using assms
  by (auto simp: SetWatches_def Let_def map_append [symmetric] simp del: map_append
        split: prod.splits)

lemma SetWatches_unresolved:
  assumes "fst (GetGroupEntities p groupId) \<noteq> DCGM_ST_OK"
  shows "SetWatches K p hw groupId systems connectionId updateInterval maxKeepAge
           = (fst (GetGroupEntities p groupId), hw, [])"
  using assms
  by (auto simp: SetWatches_def Let_def split: prod.splits)

lemma GetWatches_resolved:
  assumes "fst (GetGroupEntities p groupId) = DCGM_ST_OK"
  shows "GetWatches p hw groupId
           = (DCGM_ST_OK, Some (case mGroupWatchState hw groupId of None \<Rightarrow> 0 | Some s \<Rightarrow> s))"
  using assms by (auto simp: GetWatches_def split: prod.splits)

text \<open>
  The status of \<^verbatim>\<open>SetWatches\<close> once the group is resolved: a failed refresh, else the
  status of the switch installer when the group has switches, else success. The statuses of
  the installers of the device-class and CPU entities do not enter.
\<close>

lemma SetWatches_status:
  assumes "GetGroupEntities p groupId = (DCGM_ST_OK, entities)"
  shows "fst (SetWatches K p hw groupId systems connectionId updateInterval maxKeepAge)
           = (let groupSwitchIds =
                    fst (snd (SetWatches_entities K p systems connectionId updateInterval
                                maxKeepAge entities DCGM_ST_OK []))
              in if UpdateAllFields p 1 \<noteq> DCGM_ST_OK then UpdateAllFields p 1
                 else if groupSwitchIds \<noteq> []
                 then fst (SetNvSwitchWatches K p groupSwitchIds systems connectionId updateInterval
                             maxKeepAge)
                 else DCGM_ST_OK)"
  using assms
  by (auto simp: SetWatches_def Let_def split: prod.splits)

text \<open>
  Claim C1 (the status of \<^verbatim>\<open>SetWatches\<close> is the most recent non-success status of the run,
  so a failed installer of a device-class entity is returned when all later steps succeed).
  The code does not do that: for group 1 = [GPU 0] and the PCIe bit, with every
  \<^verbatim>\<open>AddFieldWatch\<close> failing with status -3 and the refresh succeeding, the PCIe watch is
  requested, fails, and \<^verbatim>\<open>SetWatches\<close> returns success.
\<close>

theorem SetWatches_drops_installer_failure:
  "SetPcie (example_proxy\<lparr>AddFieldWatch := (\<lambda>r. DCGM_ST_OTHER (- 3))\<rparr>) DCGM_FE_GPU 0 True 0
       1000000 3600
     = (DCGM_ST_OTHER (- 3),
        [WatchRequest DCGM_FE_GPU 0 DCGM_FI_DEV_PCIE_REPLAY_COUNTER 1000000 3600 0 False])
   \<and> UpdateAllFields (example_proxy\<lparr>AddFieldWatch := (\<lambda>r. DCGM_ST_OTHER (- 3))\<rparr>) 1 = DCGM_ST_OK
   \<and> fst (SetWatches dcgm_headers (example_proxy\<lparr>AddFieldWatch := (\<lambda>r. DCGM_ST_OTHER (- 3))\<rparr>)
            example_hw 1 1 0 1000000 3600) = DCGM_ST_OK
   \<and> snd (snd (SetWatches dcgm_headers
                  (example_proxy\<lparr>AddFieldWatch := (\<lambda>r. DCGM_ST_OTHER (- 3))\<rparr>)
                  example_hw 1 1 0 1000000 3600))
     = [EvSetMask 1 1,
        EvAddFieldWatch
          (WatchRequest DCGM_FE_GPU 0 DCGM_FI_DEV_PCIE_REPLAY_COUNTER 1000000 3600 0 False),
        EvUpdateAllFields]"
  by code_simp

text \<open>
  Claim C7: when the group resolves, \<^verbatim>\<open>GetWatches\<close> right after
  \<^verbatim>\<open>SetWatches(groupId, systems)\<close> returns exactly \<open>systems\<close>, for every mask; and a second
  \<^verbatim>\<open>SetWatches\<close> for the group replaces the stored mask by the new one (no OR with the old).
  The three calls may see different environments, as long as each resolves the group.
\<close>

theorem GetWatches_after_SetWatches:
  assumes "fst (GetGroupEntities p1 groupId) = DCGM_ST_OK"
      and "fst (GetGroupEntities p2 groupId) = DCGM_ST_OK"
      and "fst (GetGroupEntities p3 groupId) = DCGM_ST_OK"
  shows "GetWatches p2 (fst (snd (SetWatches K p1 hw groupId systems c u m))) groupId
           = (DCGM_ST_OK, Some systems)
       \<and> GetWatches p3
            (fst (snd (SetWatches K p2 (fst (snd (SetWatches K p1 hw groupId systems c u m)))
                         groupId systems' c' u' m'))) groupId
           = (DCGM_ST_OK, Some systems')"
  using assms by (simp add: SetWatches_resolved(1) GetWatches_resolved)

theorem GetWatches_after_SetWatches_witness:
  "fst (GetGroupEntities example_proxy 1) = DCGM_ST_OK
   \<and> GetWatches example_proxy
        (fst (snd (SetWatches dcgm_headers example_proxy example_hw 1 0x11 0 1000000 3600))) 1
       = (DCGM_ST_OK, Some 0x11)
   \<and> GetWatches example_proxy
        (fst (snd (SetWatches dcgm_headers example_proxy
                     (fst (snd (SetWatches dcgm_headers example_proxy example_hw 1 0x11 0
                                  1000000 3600)))
                     1 0x80 0 1000000 3600))) 1
       = (DCGM_ST_OK, Some 0x80)"
proof -
  have h: "fst (GetGroupEntities example_proxy 1) = DCGM_ST_OK"
    by (simp add: example_proxy_def)
  show ?thesis
    using h GetWatches_after_SetWatches [OF h h h, of dcgm_headers example_hw "0x11" 0 1000000
        3600 "0x80" 0 1000000 3600]
    by simp
qed

text \<open>
  Claim C9: \<^verbatim>\<open>SetWatches\<close> stores the mask before any installer runs and never takes it
  back. When the group resolves, the first effect of the call is the store, followed only by
  watch requests and the refresh; whatever status comes back (a failed switch installer or
  refresh included), the registry holds the requested mask and a following \<^verbatim>\<open>GetWatches\<close>
  returns it in full.
\<close>

theorem SetWatches_mask_not_rolled_back:
  assumes "fst (GetGroupEntities p groupId) = DCGM_ST_OK"
      and "fst (GetGroupEntities p' groupId) = DCGM_ST_OK"
  shows "(\<exists>issued. snd (snd (SetWatches K p hw groupId systems c u m))
            = EvSetMask groupId systems # map EvAddFieldWatch issued @ [EvUpdateAllFields])
       \<and> mGroupWatchState (fst (snd (SetWatches K p hw groupId systems c u m))) groupId
            = Some systems
       \<and> GetWatches p' (fst (snd (SetWatches K p hw groupId systems c u m))) groupId
            = (DCGM_ST_OK, Some systems)"
  using assms SetWatches_resolved(2) [OF assms(1)]
  by (simp add: SetWatches_resolved(1) GetWatches_resolved)

theorem SetWatches_mask_not_rolled_back_witness:
  "fst (GetGroupEntities (example_proxy\<lparr>UpdateAllFields := (\<lambda>w. DCGM_ST_OTHER (- 1))\<rparr>) 1)
       = DCGM_ST_OK
   \<and> fst (SetWatches dcgm_headers (example_proxy\<lparr>UpdateAllFields := (\<lambda>w. DCGM_ST_OTHER (- 1))\<rparr>)
            example_hw 1 0x11 0 1000000 3600) = DCGM_ST_OTHER (- 1)
   \<and> GetWatches (example_proxy\<lparr>UpdateAllFields := (\<lambda>w. DCGM_ST_OTHER (- 1))\<rparr>)
        (fst (snd (SetWatches dcgm_headers
                     (example_proxy\<lparr>UpdateAllFields := (\<lambda>w. DCGM_ST_OTHER (- 1))\<rparr>)
                     example_hw 1 0x11 0 1000000 3600))) 1
       = (DCGM_ST_OK, Some 0x11)"
proof -
  have h: "fst (GetGroupEntities (example_proxy\<lparr>UpdateAllFields := (\<lambda>w. DCGM_ST_OTHER (- 1))\<rparr>) 1)
             = DCGM_ST_OK"
    by (simp add: example_proxy_def)
  have s: "fst (SetWatches dcgm_headers
                  (example_proxy\<lparr>UpdateAllFields := (\<lambda>w. DCGM_ST_OTHER (- 1))\<rparr>)
                  example_hw 1 0x11 0 1000000 3600) = DCGM_ST_OTHER (- 1)"
    by code_simp
  show ?thesis
    using h s SetWatches_mask_not_rolled_back [OF h h, of dcgm_headers example_hw "0x11" 0
        1000000 3600]
    by simp
qed

text \<open>
  Claim C10: \<^verbatim>\<open>MonitorWatchesForGpu\<close> walks the first \<^verbatim>\<open>DCGM_HEALTH_WATCH_COUNT_V1\<close> bits and
  has cases for PCIe, memory, inforom, thermal, power and NVLink only. So its result is the
  same for two masks that agree on those six bits, whatever their NVSwitch bits, and every
  incident it adds belongs to one of the six systems, none to an NVSwitch system. With the
  health bits and the version-1 count of the header, and a device id in range, it runs
  \<^verbatim>\<open>MonitorPcie\<close>, \<^verbatim>\<open>MonitorNVLink\<close>, \<^verbatim>\<open>MonitorMem\<close>, \<^verbatim>\<open>MonitorInforom\<close>, \<^verbatim>\<open>MonitorThermal\<close> and
  \<^verbatim>\<open>MonitorPower\<close> on GPU \<open>gpuId\<close>, in this order, each exactly when its bit is in the mask:
  the status is the first non-success status among those evaluators, success when there is
  none, and the incidents are theirs, appended in order to the response.
\<close>

theorem MonitorWatchesForGpu_gpu_bits_only:
  assumes "\<forall>sys \<in> set gpu_systems. m1 AND health_bit K sys = m2 AND health_bit K sys"
      and "gpuId < DCGM_MAX_NUM_DEVICES K"
  shows "MonitorWatchesForGpu K p hw gpuId s e m1 r = MonitorWatchesForGpu K p hw gpuId s e m2 r
       \<and> snd (MonitorWatchesForGpu K p hw gpuId s e m1 r)
           = r @ snd (MonitorWatchesForGpu K p hw gpuId s e m1 [])
       \<and> (\<forall>i \<in> set (snd (MonitorWatchesForGpu K p hw gpuId s e m1 [])).
             incSystem i \<in> set gpu_systems)
       \<and> (DCGM_HEALTH_WATCH_COUNT_V1 K = 10
            \<and> health_bit K DCGM_HEALTH_WATCH_PCIE = 0x1
            \<and> health_bit K DCGM_HEALTH_WATCH_NVLINK = 0x2
            \<and> health_bit K DCGM_HEALTH_WATCH_MEM = 0x10
            \<and> health_bit K DCGM_HEALTH_WATCH_INFOROM = 0x40
            \<and> health_bit K DCGM_HEALTH_WATCH_THERMAL = 0x80
            \<and> health_bit K DCGM_HEALTH_WATCH_POWER = 0x100
          \<longrightarrow> MonitorWatchesForGpu K p hw gpuId s e m1 r
              = (let pcie = (if m1 AND health_bit K DCGM_HEALTH_WATCH_PCIE \<noteq> 0
                             then MonitorPcie K p DCGM_FE_GPU gpuId s e []
                             else (DCGM_ST_OK, []));
                     nvlink = (if m1 AND health_bit K DCGM_HEALTH_WATCH_NVLINK \<noteq> 0
                               then MonitorNVLink K p DCGM_FE_GPU gpuId s e []
                               else (DCGM_ST_OK, []));
                     mem = (if m1 AND health_bit K DCGM_HEALTH_WATCH_MEM \<noteq> 0
                            then MonitorMem K p hw DCGM_FE_GPU gpuId s e []
                            else (DCGM_ST_OK, []));
                     inforom = (if m1 AND health_bit K DCGM_HEALTH_WATCH_INFOROM \<noteq> 0
                                then MonitorInforom K p DCGM_FE_GPU gpuId s e []
                                else (DCGM_ST_OK, []));
                     thermal = (if m1 AND health_bit K DCGM_HEALTH_WATCH_THERMAL \<noteq> 0
                                then MonitorThermal K p DCGM_FE_GPU gpuId s e []
                                else (DCGM_ST_OK, []));
                     power = (if m1 AND health_bit K DCGM_HEALTH_WATCH_POWER \<noteq> 0
                              then MonitorPower K p DCGM_FE_GPU gpuId s e []
                              else (DCGM_ST_OK, []))
                 in (first_failure [fst pcie, fst nvlink, fst mem, fst inforom, fst thermal,
                                    fst power],
                     r @ snd pcie @ snd nvlink @ snd mem @ snd inforom @ snd thermal
                       @ snd power)))"
proof -
  have mask: "MonitorWatchesForGpu K p hw gpuId s e m1 r = MonitorWatchesForGpu K p hw gpuId s e m2 r"
    by (simp add: MonitorWatchesForGpu_def MonitorWatchesForGpu_loop_mask [OF assms(1)])
  have grow: "snd (MonitorWatchesForGpu K p hw gpuId s e m1 r)
                = r @ snd (MonitorWatchesForGpu K p hw gpuId s e m1 [])"
    using MonitorWatchesForGpu_loop_response
            [of K p hw gpuId s e m1 "[0..<DCGM_HEALTH_WATCH_COUNT_V1 K]" DCGM_ST_OK r "[]"]
    by (simp add: MonitorWatchesForGpu_def)
  have sys: "\<forall>i \<in> set (snd (MonitorWatchesForGpu K p hw gpuId s e m1 [])).
               incSystem i \<in> set gpu_systems"
    using MonitorWatchesForGpu_loop_system
            [of "[]" K p hw gpuId s e m1 "[0..<DCGM_HEALTH_WATCH_COUNT_V1 K]" DCGM_ST_OK]
    by (simp add: MonitorWatchesForGpu_def)
  have run: "MonitorWatchesForGpu K p hw gpuId s e m1 r
      = (first_failure
           (map fst (map (\<lambda>index. MonitorWatchesForGpu_switch K p hw gpuId s e m1
                                     (push_bit index 1) [])
                       [0..<DCGM_HEALTH_WATCH_COUNT_V1 K])),
         r @ concat
               (map snd (map (\<lambda>index. MonitorWatchesForGpu_switch K p hw gpuId s e m1
                                          (push_bit index 1) [])
                           [0..<DCGM_HEALTH_WATCH_COUNT_V1 K])))"
    using assms(2)
    by (simp add: MonitorWatchesForGpu_def prod_eq_iff MonitorWatchesForGpu_loop_status
          MonitorWatchesForGpu_loop_incidents comp_def)
  have rounds: "MonitorWatchesForGpu K p hw gpuId s e m1 r
      = (let pcie = (if m1 AND health_bit K DCGM_HEALTH_WATCH_PCIE \<noteq> 0
                     then MonitorPcie K p DCGM_FE_GPU gpuId s e []
                     else (DCGM_ST_OK, []));
             nvlink = (if m1 AND health_bit K DCGM_HEALTH_WATCH_NVLINK \<noteq> 0
                       then MonitorNVLink K p DCGM_FE_GPU gpuId s e []
                       else (DCGM_ST_OK, []));
             mem = (if m1 AND health_bit K DCGM_HEALTH_WATCH_MEM \<noteq> 0
                    then MonitorMem K p hw DCGM_FE_GPU gpuId s e []
                    else (DCGM_ST_OK, []));
             inforom = (if m1 AND health_bit K DCGM_HEALTH_WATCH_INFOROM \<noteq> 0
                        then MonitorInforom K p DCGM_FE_GPU gpuId s e []
                        else (DCGM_ST_OK, []));
             thermal = (if m1 AND health_bit K DCGM_HEALTH_WATCH_THERMAL \<noteq> 0
                        then MonitorThermal K p DCGM_FE_GPU gpuId s e []
                        else (DCGM_ST_OK, []));
             power = (if m1 AND health_bit K DCGM_HEALTH_WATCH_POWER \<noteq> 0
                      then MonitorPower K p DCGM_FE_GPU gpuId s e []
                      else (DCGM_ST_OK, []))
         in (first_failure [fst pcie, fst nvlink, fst mem, fst inforom, fst thermal,
                            fst power],
             r @ snd pcie @ snd nvlink @ snd mem @ snd inforom @ snd thermal
               @ snd power))"
    if layout: "DCGM_HEALTH_WATCH_COUNT_V1 K = 10"
       "health_bit K DCGM_HEALTH_WATCH_PCIE = 0x1"
       "health_bit K DCGM_HEALTH_WATCH_NVLINK = 0x2"
       "health_bit K DCGM_HEALTH_WATCH_MEM = 0x10"
       "health_bit K DCGM_HEALTH_WATCH_INFOROM = 0x40"
       "health_bit K DCGM_HEALTH_WATCH_THERMAL = 0x80"
       "health_bit K DCGM_HEALTH_WATCH_POWER = 0x100"
    unfolding run MonitorWatchesForGpu_rounds [OF layout] Let_def
    by simp
  show ?thesis
    using mask grow sys rounds by blast
qed

theorem MonitorWatchesForGpu_gpu_bits_only_witness:
  "list_all (\<lambda>sys. 0xC11 AND health_bit dcgm_headers sys = 0x11 AND health_bit dcgm_headers sys)
     gpu_systems
   \<and> (0::nat) < DCGM_MAX_NUM_DEVICES dcgm_headers
   \<and> DCGM_HEALTH_WATCH_COUNT_V1 dcgm_headers = 10
   \<and> health_bit dcgm_headers DCGM_HEALTH_WATCH_PCIE = 0x1
   \<and> health_bit dcgm_headers DCGM_HEALTH_WATCH_NVLINK = 0x2
   \<and> health_bit dcgm_headers DCGM_HEALTH_WATCH_MEM = 0x10
   \<and> health_bit dcgm_headers DCGM_HEALTH_WATCH_INFOROM = 0x40
   \<and> health_bit dcgm_headers DCGM_HEALTH_WATCH_THERMAL = 0x80
   \<and> health_bit dcgm_headers DCGM_HEALTH_WATCH_POWER = 0x100
   \<and> MonitorPcie dcgm_headers pcie_mem_proxy DCGM_FE_GPU 0 0 0 []
       = (DCGM_ST_OK,
          [\<lparr>incSystem = DCGM_HEALTH_WATCH_PCIE, incHealth = DCGM_HEALTH_RESULT_WARN,
             incCode = DCGM_FR_PCI_REPLAY_RATE, incEntityGroupId = DCGM_FE_GPU,
             incEntityId = 0\<rparr>])
   \<and> MonitorMem dcgm_headers pcie_mem_proxy example_hw DCGM_FE_GPU 0 0 0 []
       = (DCGM_ST_OTHER (- 7), [])
   \<and> MonitorWatchesForGpu dcgm_headers pcie_mem_proxy example_hw 0 0 0 0xC11 []
       = MonitorWatchesForGpu dcgm_headers pcie_mem_proxy example_hw 0 0 0 0x11 []
   \<and> MonitorWatchesForGpu dcgm_headers pcie_mem_proxy example_hw 0 0 0 0xC11 []
       = (DCGM_ST_OTHER (- 7),
          [\<lparr>incSystem = DCGM_HEALTH_WATCH_PCIE, incHealth = DCGM_HEALTH_RESULT_WARN,
             incCode = DCGM_FR_PCI_REPLAY_RATE, incEntityGroupId = DCGM_FE_GPU,
             incEntityId = 0\<rparr>])"
proof -
  have h1: "\<forall>sys \<in> set gpu_systems.
              0xC11 AND health_bit dcgm_headers sys = 0x11 AND health_bit dcgm_headers sys"
    by (simp add: gpu_systems_def dcgm_headers_def)
  have h2: "(0::nat) < DCGM_MAX_NUM_DEVICES dcgm_headers"
    by (simp add: dcgm_headers_def)
  have layout: "DCGM_HEALTH_WATCH_COUNT_V1 dcgm_headers = 10"
    "health_bit dcgm_headers DCGM_HEALTH_WATCH_PCIE = 0x1"
    "health_bit dcgm_headers DCGM_HEALTH_WATCH_NVLINK = 0x2"
    "health_bit dcgm_headers DCGM_HEALTH_WATCH_MEM = 0x10"
    "health_bit dcgm_headers DCGM_HEALTH_WATCH_INFOROM = 0x40"
    "health_bit dcgm_headers DCGM_HEALTH_WATCH_THERMAL = 0x80"
    "health_bit dcgm_headers DCGM_HEALTH_WATCH_POWER = 0x100"
    by (simp_all add: dcgm_headers_def)
  have pcie: "MonitorPcie dcgm_headers pcie_mem_proxy DCGM_FE_GPU 0 0 0 []
       = (DCGM_ST_OK,
          [\<lparr>incSystem = DCGM_HEALTH_WATCH_PCIE, incHealth = DCGM_HEALTH_RESULT_WARN,
             incCode = DCGM_FR_PCI_REPLAY_RATE, incEntityGroupId = DCGM_FE_GPU,
             incEntityId = 0\<rparr>])"
    by code_simp
  have mem: "MonitorMem dcgm_headers pcie_mem_proxy example_hw DCGM_FE_GPU 0 0 0 []
       = (DCGM_ST_OTHER (- 7), [])"
    by code_simp
  note t = MonitorWatchesForGpu_gpu_bits_only [OF h1 h2, of pcie_mem_proxy example_hw 0 0 "[]"]
  have same: "MonitorWatchesForGpu dcgm_headers pcie_mem_proxy example_hw 0 0 0 0xC11 []
       = MonitorWatchesForGpu dcgm_headers pcie_mem_proxy example_hw 0 0 0 0x11 []"
    using t by (rule conjunct1)
  have run: "MonitorWatchesForGpu dcgm_headers pcie_mem_proxy example_hw 0 0 0 0xC11 []
       = (DCGM_ST_OTHER (- 7),
          [\<lparr>incSystem = DCGM_HEALTH_WATCH_PCIE, incHealth = DCGM_HEALTH_RESULT_WARN,
             incCode = DCGM_FR_PCI_REPLAY_RATE, incEntityGroupId = DCGM_FE_GPU,
             incEntityId = 0\<rparr>])"
    using t [THEN conjunct2, THEN conjunct2, THEN conjunct2] layout
    by (simp add: pcie mem)
  show ?thesis
    using h1 h2 layout pcie mem same run by (simp add: list_all_iff)
qed

section \<open>The uncontained-error set\<close>

text \<open>
  The set of GPUs that had an uncontained error only grows: a batch of field values adds the
  ids it marks, and no other operation changes the set. Evaluations of an entity that is not
  a GPU do not read it.
\<close>

lemma OnFieldValuesUpdate_state:
  "m_gpuHadUncontainedErrorXid (OnFieldValuesUpdate hw fvBuffer)
     = m_gpuHadUncontainedErrorXid hw \<union> uncontained_ids fvBuffer
   \<and> mGroupWatchState (OnFieldValuesUpdate hw fvBuffer) = mGroupWatchState hw"
  unfolding OnFieldValuesUpdate_def uncontained_ids_def
  by (induction fvBuffer arbitrary: hw) (auto simp: ProcessXidFv_def)

lemma after_call_ids:
  "m_gpuHadUncontainedErrorXid (after_call K hw (p, c))
     = m_gpuHadUncontainedErrorXid hw \<union> call_uncontained_ids c"
proof (cases c)
  case (CallSetWatches groupId systems connectionId updateInterval maxKeepAge)
  then show ?thesis
    by (cases "fst (GetGroupEntities p groupId) = DCGM_ST_OK")
       (simp_all add: SetWatches_resolved(1) SetWatches_unresolved)
next
  case (CallOnGroupRemove groupId)
  then show ?thesis by (simp add: OnGroupRemove_def split: option.splits)
next
  case (CallOnFieldValuesUpdate fvBuffer)
  then show ?thesis by (simp add: OnFieldValuesUpdate_state)
qed simp_all

lemma after_calls_ids:
  "m_gpuHadUncontainedErrorXid (after_calls K hw calls)
     = m_gpuHadUncontainedErrorXid hw \<union> (\<Union>c \<in> set calls. call_uncontained_ids (snd c))"
  unfolding after_calls_def
proof (induction calls arbitrary: hw)
  case Nil
  then show ?case by simp
next
  case (Cons c calls)
  obtain p k where c: "c = (p, k)" by (cases c)
  show ?case
    by (simp add: Cons.IH c after_call_ids Un_assoc)
qed

lemma MonitorMem_not_gpu:
  assumes "eg \<noteq> DCGM_FE_GPU"
  shows "MonitorMem K p hw eg eid s e r = MonitorMem K p hw' eg eid s e r"
  using assms by (simp add: MonitorMem_def MonitorUncontainedErrors_def)

lemma MonitorWatches_switch_not_gpu:
  assumes "eg \<noteq> DCGM_FE_GPU"
  shows "MonitorWatches_switch K p hw eg eid s e m b ret r
           = MonitorWatches_switch K p hw' eg eid s e m b ret r"
  using MonitorMem_not_gpu [OF assms, of K p hw eid s e r hw']
  by (simp add: MonitorWatches_switch_def)

lemma MonitorWatches_bits_not_gpu:
  assumes "eg \<noteq> DCGM_FE_GPU"
  shows "MonitorWatches_bits K p hw eg eid s e m idxs ret r
           = MonitorWatches_bits K p hw' eg eid s e m idxs ret r"
  by (induction idxs arbitrary: ret r)
     (simp_all add: MonitorWatches_switch_not_gpu [OF assms, of K p hw _ s e m _ _ _ hw']
        case_prod_beta)

lemma MonitorWatches_entities_not_gpu:
  assumes "\<forall>ent \<in> set entities. fst ent \<noteq> DCGM_FE_GPU"
  shows "MonitorWatches_entities K p hw s e m entities ret r
           = MonitorWatches_entities K p hw' s e m entities ret r"
  using assms
proof (induction entities arbitrary: ret r)
  case Nil
  then show ?case by simp
next
  case (Cons ent entities)
  then have "fst ent \<noteq> DCGM_FE_GPU" by simp
  from MonitorWatches_bits_not_gpu [OF this, of K p hw "snd ent" s e m _ _ _ hw'] Cons
  show ?case by (simp add: case_prod_beta)
qed

lemma MonitorWatches_not_gpu:
  assumes "\<forall>ent \<in> set (snd (GetGroupEntities p groupId)). fst ent \<noteq> DCGM_FE_GPU"
  shows "MonitorWatches K p hw groupId s e r
           = MonitorWatches K p (hw\<lparr>m_gpuHadUncontainedErrorXid := S\<rparr>) groupId s e r"
  using MonitorWatches_entities_not_gpu [OF assms, of K p hw _ _ _ _ _
          "hw\<lparr>m_gpuHadUncontainedErrorXid := S\<rparr>"]
  by (simp add: MonitorWatches_def Let_def case_prod_beta)

text \<open>
  Claim C6 as stated speaks of device-class entities, which in this code are GPUs, GPU
  instances and compute instances (\<open>FitsGpuHardwareCheck\<close>). For a GPU instance it fails:
  a batch with XID 95 for GPU instance 3 marks nothing, and the memory evaluation of GPU
  instance 3 raises no uncontained-error incident, also when GPU 3 itself is marked.
\<close>

theorem uncontained_error_partition_counterexample:
  "FitsGpuHardwareCheck DCGM_FE_GPU_I
   \<and> 3 \<notin> m_gpuHadUncontainedErrorXid
           (OnFieldValuesUpdate example_hw
              [\<lparr>fvEntityGroupId = DCGM_FE_GPU_I, fvEntityId = 3,
                 fvFieldId = DCGM_FI_DEV_XID_ERRORS, fvValue_i64 = 95\<rparr>])
   \<and> filter (\<lambda>i. incCode i = DCGM_FR_UNCONTAINED_ERROR)
        (snd (MonitorMem dcgm_headers example_proxy
                (OnFieldValuesUpdate example_hw
                   [\<lparr>fvEntityGroupId = DCGM_FE_GPU_I, fvEntityId = 3,
                      fvFieldId = DCGM_FI_DEV_XID_ERRORS, fvValue_i64 = 95\<rparr>])
                DCGM_FE_GPU_I 3 0 0 [])) = []
   \<and> filter (\<lambda>i. incCode i = DCGM_FR_UNCONTAINED_ERROR)
        (snd (MonitorMem dcgm_headers example_proxy
                (OnFieldValuesUpdate example_hw
                   [\<lparr>fvEntityGroupId = DCGM_FE_GPU, fvEntityId = 3,
                      fvFieldId = DCGM_FI_DEV_XID_ERRORS, fvValue_i64 = 95\<rparr>])
                DCGM_FE_GPU_I 3 0 0 [])) = []"
  by code_simp

text \<open>
  Claim C6, amended to full GPUs: once a batch with XID 95 for GPU \<open>X\<close> has been ingested
  anywhere in a sequence of calls, every memory evaluation of GPU \<open>X\<close> after the sequence
  raises exactly one uncontained-error incident (FAIL, memory); a GPU that was neither marked
  at the start nor by any batch of the sequence gets none; evaluations of entities that are
  not GPUs (switches, GPU instances, compute instances), and the evaluation of a group
  without GPUs, do not depend on the set; no call removes an id from the set, and ingesting
  a batch twice gives the same set as ingesting it once.
\<close>

theorem uncontained_error_flag:
  assumes "(p', CallOnFieldValuesUpdate fvBuffer) \<in> set calls"
      and "fv \<in> set fvBuffer"
      and "fvEntityGroupId fv = DCGM_FE_GPU"
      and "fvFieldId fv = DCGM_FI_DEV_XID_ERRORS"
      and "fvValue_i64 fv = 95"
  shows "filter (\<lambda>i. incCode i = DCGM_FR_UNCONTAINED_ERROR)
           (snd (MonitorMem K p (after_calls K hw calls) DCGM_FE_GPU (fvEntityId fv) s e []))
         = [\<lparr>incSystem = DCGM_HEALTH_WATCH_MEM, incHealth = DCGM_HEALTH_RESULT_FAIL,
              incCode = DCGM_FR_UNCONTAINED_ERROR, incEntityGroupId = DCGM_FE_GPU,
              incEntityId = fvEntityId fv\<rparr>]
       \<and> (\<forall>X. X \<notin> m_gpuHadUncontainedErrorXid hw
                 \<union> (\<Union>c \<in> set calls. call_uncontained_ids (snd c))
              \<longrightarrow> filter (\<lambda>i. incCode i = DCGM_FR_UNCONTAINED_ERROR)
                    (snd (MonitorMem K p (after_calls K hw calls) DCGM_FE_GPU X s e [])) = [])
       \<and> (\<forall>eg. eg \<noteq> DCGM_FE_GPU
              \<longrightarrow> MonitorMem K p hw eg eid s e r
                  = MonitorMem K p (hw\<lparr>m_gpuHadUncontainedErrorXid := S\<rparr>) eg eid s e r)
       \<and> ((\<forall>ent \<in> set (snd (GetGroupEntities p groupId)). fst ent \<noteq> DCGM_FE_GPU)
              \<longrightarrow> MonitorWatches K p hw groupId s e r
                  = MonitorWatches K p (hw\<lparr>m_gpuHadUncontainedErrorXid := S\<rparr>) groupId s e r)
       \<and> m_gpuHadUncontainedErrorXid hw \<subseteq> m_gpuHadUncontainedErrorXid (after_calls K hw calls)
       \<and> m_gpuHadUncontainedErrorXid (OnFieldValuesUpdate (OnFieldValuesUpdate hw fvBuffer) fvBuffer)
           = m_gpuHadUncontainedErrorXid (OnFieldValuesUpdate hw fvBuffer)"
proof -
  have "fvEntityId fv \<in> uncontained_ids fvBuffer"
    using assms(2-5) by (auto simp: uncontained_ids_def)
  then have "fvEntityId fv \<in> (\<Union>c \<in> set calls. call_uncontained_ids (snd c))"
    using assms(1) by force
  then have marked: "fvEntityId fv \<in> m_gpuHadUncontainedErrorXid (after_calls K hw calls)"
    by (simp add: after_calls_ids)
  have c1: "filter (\<lambda>i. incCode i = DCGM_FR_UNCONTAINED_ERROR)
           (snd (MonitorMem K p (after_calls K hw calls) DCGM_FE_GPU (fvEntityId fv) s e []))
         = [\<lparr>incSystem = DCGM_HEALTH_WATCH_MEM, incHealth = DCGM_HEALTH_RESULT_FAIL,
              incCode = DCGM_FR_UNCONTAINED_ERROR, incEntityGroupId = DCGM_FE_GPU,
              incEntityId = fvEntityId fv\<rparr>]"
    using marked by (simp add: MonitorMem_uncontained)
  have c2: "\<forall>X. X \<notin> m_gpuHadUncontainedErrorXid hw
                 \<union> (\<Union>c \<in> set calls. call_uncontained_ids (snd c))
              \<longrightarrow> filter (\<lambda>i. incCode i = DCGM_FR_UNCONTAINED_ERROR)
                    (snd (MonitorMem K p (after_calls K hw calls) DCGM_FE_GPU X s e [])) = []"
    by (simp add: MonitorMem_uncontained after_calls_ids)
  have c3: "\<forall>eg. eg \<noteq> DCGM_FE_GPU
              \<longrightarrow> MonitorMem K p hw eg eid s e r
                  = MonitorMem K p (hw\<lparr>m_gpuHadUncontainedErrorXid := S\<rparr>) eg eid s e r"
    using MonitorMem_not_gpu by blast
  have c4: "(\<forall>ent \<in> set (snd (GetGroupEntities p groupId)). fst ent \<noteq> DCGM_FE_GPU)
              \<longrightarrow> MonitorWatches K p hw groupId s e r
                  = MonitorWatches K p (hw\<lparr>m_gpuHadUncontainedErrorXid := S\<rparr>) groupId s e r"
    using MonitorWatches_not_gpu by blast
  have c5: "m_gpuHadUncontainedErrorXid hw \<subseteq> m_gpuHadUncontainedErrorXid (after_calls K hw calls)"
    by (simp add: after_calls_ids)
  have c6: "m_gpuHadUncontainedErrorXid (OnFieldValuesUpdate (OnFieldValuesUpdate hw fvBuffer) fvBuffer)
           = m_gpuHadUncontainedErrorXid (OnFieldValuesUpdate hw fvBuffer)"
    by (simp add: OnFieldValuesUpdate_state Un_assoc)
  show ?thesis
    using c1 c2 c3 c4 c5 c6 by blast
qed

theorem uncontained_error_flag_witness:
  "(example_proxy, CallOnFieldValuesUpdate [example_fv]) \<in> set example_calls
   \<and> example_fv \<in> set [example_fv]
   \<and> fvEntityGroupId example_fv = DCGM_FE_GPU
   \<and> fvFieldId example_fv = DCGM_FI_DEV_XID_ERRORS
   \<and> fvValue_i64 example_fv = 95
   \<and> filter (\<lambda>i. incCode i = DCGM_FR_UNCONTAINED_ERROR)
        (snd (MonitorMem dcgm_headers example_proxy
                (after_calls dcgm_headers example_hw example_calls) DCGM_FE_GPU 3 0 0 []))
      = [\<lparr>incSystem = DCGM_HEALTH_WATCH_MEM, incHealth = DCGM_HEALTH_RESULT_FAIL,
           incCode = DCGM_FR_UNCONTAINED_ERROR, incEntityGroupId = DCGM_FE_GPU,
           incEntityId = 3\<rparr>]
   \<and> filter (\<lambda>i. incCode i = DCGM_FR_UNCONTAINED_ERROR)
        (snd (MonitorMem dcgm_headers example_proxy
                (after_calls dcgm_headers example_hw example_calls) DCGM_FE_GPU 4 0 0 []))
      = []"
proof -
  have h1: "(example_proxy, CallOnFieldValuesUpdate [example_fv]) \<in> set example_calls"
    by (simp add: example_calls_def)
  have h2: "example_fv \<in> set [example_fv]" by simp
  have h3: "fvEntityGroupId example_fv = DCGM_FE_GPU" by (simp add: example_fv_def)
  have h4: "fvFieldId example_fv = DCGM_FI_DEV_XID_ERRORS" by (simp add: example_fv_def)
  have h5: "fvValue_i64 example_fv = 95" by (simp add: example_fv_def)
  have id: "fvEntityId example_fv = 3" by (simp add: example_fv_def)
  have n4: "4 \<notin> m_gpuHadUncontainedErrorXid example_hw
                 \<union> (\<Union>c \<in> set example_calls. call_uncontained_ids (snd c))"
    by (simp add: example_hw_def example_calls_def uncontained_ids_def example_fv_def)
  note t = uncontained_error_flag [OF h1 h2 h3 h4 h5, of dcgm_headers example_proxy example_hw
      0 0]
  have a: "filter (\<lambda>i. incCode i = DCGM_FR_UNCONTAINED_ERROR)
        (snd (MonitorMem dcgm_headers example_proxy
                (after_calls dcgm_headers example_hw example_calls) DCGM_FE_GPU 3 0 0 []))
      = [\<lparr>incSystem = DCGM_HEALTH_WATCH_MEM, incHealth = DCGM_HEALTH_RESULT_FAIL,
           incCode = DCGM_FR_UNCONTAINED_ERROR, incEntityGroupId = DCGM_FE_GPU,
           incEntityId = 3\<rparr>]"
    using t [THEN conjunct1] unfolding id .
  have b: "filter (\<lambda>i. incCode i = DCGM_FR_UNCONTAINED_ERROR)
        (snd (MonitorMem dcgm_headers example_proxy
                (after_calls dcgm_headers example_hw example_calls) DCGM_FE_GPU 4 0 0 []))
      = []"
    using t [THEN conjunct2, THEN conjunct1, rule_format, OF n4] .
  show ?thesis
    by (intro conjI) (fact h1 h2 h3 h4 h5 a b)+
qed

section \<open>Thresholds of the evaluators\<close>

text \<open>Signed 64-bit addition and subtraction where the result fits.\<close>

lemma sint_add64:
  "- (2 ^ 63) \<le> sint a + sint b \<Longrightarrow> sint a + sint b < 2 ^ 63
     \<Longrightarrow> sint (a + b :: int64) = sint a + sint b"
  by (simp add: sint_word_ariths signed_take_bit_int_eq_self)

lemma sint_sub64:
  "- (2 ^ 63) \<le> sint a - sint b \<Longrightarrow> sint a - sint b < 2 ^ 63
     \<Longrightarrow> sint (a - b :: int64) = sint a - sint b"
  by (simp add: sint_word_ariths signed_take_bit_int_eq_self)

text \<open>
  Claim C4: in the retired-pages sub-check, once both latest samples are read without an
  upstream failure and their sum (blank values left out) does not overflow: a sum at or above
  \<^verbatim>\<open>DCGM_LIMIT_MAX_RETIRED_PAGES\<close> raises exactly one FAIL incident (the cap rule), whatever
  the sample of a week ago holds; below the cap, with a latest DBE count above the soft limit
  and a non-blank DBE count read for the window ending one week before now, exactly one FAIL
  incident is raised when latest minus week-old is more than 1 and none otherwise.
\<close>

theorem retired_pages_cap_and_weekly_rate:
  assumes dbeq: "read_sample zero_sample
                   (GetSamples p eg eid DCGM_FI_DEV_RETIRED_DBE s e DCGM_ORDER_DESCENDING)
                 = (st1, dbe)"
      and sbeq: "read_sample zero_sample
                   (GetSamples p eg eid DCGM_FI_DEV_RETIRED_SBE s e DCGM_ORDER_DESCENDING)
                 = (st2, sbe)"
      and st1: "st1 \<in> {DCGM_ST_OK, DCGM_ST_NO_DATA, DCGM_ST_NOT_WATCHED}"
      and st2: "st2 \<in> {DCGM_ST_OK, DCGM_ST_NO_DATA, DCGM_ST_NOT_WATCHED}"
      and pages: "pages = (if DCGM_INT64_IS_BLANK K (val_i64 sbe) then 0 else sint (val_i64 sbe))
                        + (if DCGM_INT64_IS_BLANK K (val_i64 dbe) then 0 else sint (val_i64 dbe))"
      and fits: "- (2 ^ 63) \<le> pages" "pages < 2 ^ 63"
      and weekq: "read_sample zero_sample
                    (GetSamples p eg eid DCGM_FI_DEV_RETIRED_DBE 0
                       (timelib_usecSince1970 p - oneWeekInUsec) DCGM_ORDER_DESCENDING)
                  = (st3, weekAgo)"
  shows "(sint (DCGM_LIMIT_MAX_RETIRED_PAGES K) \<le> pages
            \<longrightarrow> snd (MonitorMemSbeDbeRetiredPages K p eg eid s e r)
                = r @ [\<lparr>incSystem = DCGM_HEALTH_WATCH_MEM, incHealth = DCGM_HEALTH_RESULT_FAIL,
                         incCode = DCGM_FR_RETIRED_PAGES_LIMIT, incEntityGroupId = eg,
                         incEntityId = eid\<rparr>])
       \<and> (pages < sint (DCGM_LIMIT_MAX_RETIRED_PAGES K)
            \<and> \<not> DCGM_INT64_IS_BLANK K (val_i64 dbe)
            \<and> sint (DCGM_LIMIT_MAX_RETIRED_PAGES_SOFT_LIMIT K) < sint (val_i64 dbe)
            \<and> st3 \<in> {DCGM_ST_OK, DCGM_ST_NO_DATA}
            \<and> \<not> DCGM_INT64_IS_BLANK K (val_i64 weekAgo)
            \<and> - (2 ^ 63) \<le> sint (val_i64 dbe) - sint (val_i64 weekAgo)
            \<and> sint (val_i64 dbe) - sint (val_i64 weekAgo) < 2 ^ 63
            \<longrightarrow> snd (MonitorMemSbeDbeRetiredPages K p eg eid s e r)
                = (if 1 < sint (val_i64 dbe) - sint (val_i64 weekAgo)
                   then r @ [\<lparr>incSystem = DCGM_HEALTH_WATCH_MEM,
                               incHealth = DCGM_HEALTH_RESULT_FAIL,
                               incCode = DCGM_FR_RETIRED_PAGES_DBE_LIMIT, incEntityGroupId = eg,
                               incEntityId = eid\<rparr>]
                   else r))"
proof -
  define t1 where "t1 = (if \<not> DCGM_INT64_IS_BLANK K (val_i64 sbe) then 0 + val_i64 sbe else 0)"
  define t2 where "t2 = (if \<not> DCGM_INT64_IS_BLANK K (val_i64 dbe) then t1 + val_i64 dbe else t1)"
  have s1: "sint t1 = (if DCGM_INT64_IS_BLANK K (val_i64 sbe) then 0 else sint (val_i64 sbe))"
    by (simp add: t1_def)
  have s2: "sint t2 = pages"
  proof (cases "DCGM_INT64_IS_BLANK K (val_i64 dbe)")
    case True
    then show ?thesis by (simp add: t2_def s1 pages)
  next
    case False
    have "sint (t1 + val_i64 dbe) = sint t1 + sint (val_i64 dbe)"
      using fits False by (intro sint_add64) (simp_all add: s1 pages)
    then show ?thesis using False by (simp add: t2_def s1 pages)
  qed
  have body: "MonitorMemSbeDbeRetiredPages K p eg eid s e r =
     (if sint (DCGM_LIMIT_MAX_RETIRED_PAGES K) \<le> sint t2
      then (st2, SetResponse eg eid DCGM_HEALTH_RESULT_FAIL DCGM_HEALTH_WATCH_MEM
                   DCGM_FR_RETIRED_PAGES_LIMIT r)
      else if \<not> DCGM_INT64_IS_BLANK K (val_i64 dbe)
              \<and> sint (DCGM_LIMIT_MAX_RETIRED_PAGES_SOFT_LIMIT K) < sint (val_i64 dbe)
      then (if st3 \<noteq> DCGM_ST_OK \<and> st3 \<noteq> DCGM_ST_NO_DATA then (st2, r)
            else if DCGM_INT64_IS_BLANK K (val_i64 weekAgo) then (DCGM_ST_OK, r)
            else if 1 < sint (val_i64 dbe - val_i64 weekAgo)
            then (DCGM_ST_OK, SetResponse eg eid DCGM_HEALTH_RESULT_FAIL DCGM_HEALTH_WATCH_MEM
                                DCGM_FR_RETIRED_PAGES_DBE_LIMIT r)
            else (DCGM_ST_OK, r))
      else (DCGM_ST_OK, r))"
    using st1 st2
    unfolding MonitorMemSbeDbeRetiredPages_def dbeq sbeq weekq Let_def t1_def t2_def
    by auto
  show ?thesis
    unfolding body s2
    by (auto simp: SetResponse_def sint_sub64)
qed


theorem retired_pages_cap_and_weekly_rate_witness:
  "read_sample zero_sample
     (GetSamples (retired_pages_proxy 3 2 0) DCGM_FE_GPU 0 DCGM_FI_DEV_RETIRED_DBE 1 0
        DCGM_ORDER_DESCENDING) = (DCGM_ST_OK, \<lparr>val_i64 = 2, val_d = 0\<rparr>)
   \<and> read_sample zero_sample
     (GetSamples (retired_pages_proxy 3 2 0) DCGM_FE_GPU 0 DCGM_FI_DEV_RETIRED_SBE 1 0
        DCGM_ORDER_DESCENDING) = (DCGM_ST_OK, \<lparr>val_i64 = 3, val_d = 0\<rparr>)
   \<and> sint (DCGM_LIMIT_MAX_RETIRED_PAGES (dcgm_headers\<lparr>DCGM_LIMIT_MAX_RETIRED_PAGES := 5\<rparr>))
       \<le> (5 :: int)
   \<and> snd (MonitorMemSbeDbeRetiredPages (dcgm_headers\<lparr>DCGM_LIMIT_MAX_RETIRED_PAGES := 5\<rparr>)
            (retired_pages_proxy 3 2 0) DCGM_FE_GPU 0 1 0 [])
       = [\<lparr>incSystem = DCGM_HEALTH_WATCH_MEM, incHealth = DCGM_HEALTH_RESULT_FAIL,
            incCode = DCGM_FR_RETIRED_PAGES_LIMIT, incEntityGroupId = DCGM_FE_GPU,
            incEntityId = 0\<rparr>]
   \<and> snd (MonitorMemSbeDbeRetiredPages dcgm_headers (retired_pages_proxy 0 16 14)
            DCGM_FE_GPU 0 1 0 [])
       = [\<lparr>incSystem = DCGM_HEALTH_WATCH_MEM, incHealth = DCGM_HEALTH_RESULT_FAIL,
            incCode = DCGM_FR_RETIRED_PAGES_DBE_LIMIT, incEntityGroupId = DCGM_FE_GPU,
            incEntityId = 0\<rparr>]
   \<and> snd (MonitorMemSbeDbeRetiredPages dcgm_headers (retired_pages_proxy 0 16 15)
            DCGM_FE_GPU 0 1 0 []) = []"
proof -
  let ?K5 = "dcgm_headers\<lparr>DCGM_LIMIT_MAX_RETIRED_PAGES := 5\<rparr>"
  have q: "read_sample zero_sample
             (GetSamples (retired_pages_proxy sbe dbe w) DCGM_FE_GPU 0 DCGM_FI_DEV_RETIRED_DBE 1 0
                DCGM_ORDER_DESCENDING) = (DCGM_ST_OK, \<lparr>val_i64 = dbe, val_d = 0\<rparr>)"
          "read_sample zero_sample
             (GetSamples (retired_pages_proxy sbe dbe w) DCGM_FE_GPU 0 DCGM_FI_DEV_RETIRED_SBE 1 0
                DCGM_ORDER_DESCENDING) = (DCGM_ST_OK, \<lparr>val_i64 = sbe, val_d = 0\<rparr>)"
          "read_sample zero_sample
             (GetSamples (retired_pages_proxy sbe dbe w) DCGM_FE_GPU 0 DCGM_FI_DEV_RETIRED_DBE 0
                (timelib_usecSince1970 (retired_pages_proxy sbe dbe w) - oneWeekInUsec)
                DCGM_ORDER_DESCENDING) = (DCGM_ST_OK, \<lparr>val_i64 = w, val_d = 0\<rparr>)"
    for sbe dbe w
    by (simp_all add: read_sample_def retired_pages_proxy_def)
  have ok: "DCGM_ST_OK \<in> {DCGM_ST_OK, DCGM_ST_NO_DATA, DCGM_ST_NOT_WATCHED}" by simp
  have fits5: "- (2 ^ 63) \<le> (5 :: int)" "(5 :: int) < 2 ^ 63" by simp_all
  have fits16: "- (2 ^ 63) \<le> (16 :: int)" "(16 :: int) < 2 ^ 63" by simp_all
  have cap_pages:
    "(5 :: int) = (if DCGM_INT64_IS_BLANK ?K5 (val_i64 \<lparr>val_i64 = 3, val_d = 0\<rparr>) then 0
                   else sint (val_i64 \<lparr>val_i64 = (3 :: int64), val_d = 0\<rparr>))
                + (if DCGM_INT64_IS_BLANK ?K5 (val_i64 \<lparr>val_i64 = 2, val_d = 0\<rparr>) then 0
                   else sint (val_i64 \<lparr>val_i64 = (2 :: int64), val_d = 0\<rparr>))"
    by (simp add: dcgm_headers_def)
  have cap_limit: "sint (DCGM_LIMIT_MAX_RETIRED_PAGES ?K5) \<le> (5 :: int)"
    by simp
  have cap: "snd (MonitorMemSbeDbeRetiredPages ?K5 (retired_pages_proxy 3 2 0) DCGM_FE_GPU 0 1 0 [])
       = [\<lparr>incSystem = DCGM_HEALTH_WATCH_MEM, incHealth = DCGM_HEALTH_RESULT_FAIL,
            incCode = DCGM_FR_RETIRED_PAGES_LIMIT, incEntityGroupId = DCGM_FE_GPU,
            incEntityId = 0\<rparr>]"
    using retired_pages_cap_and_weekly_rate [OF q(1) [of 3 2 0] q(2) [of 3 2 0] ok ok cap_pages
        fits5 q(3) [of 3 2 0], THEN conjunct1, rule_format, OF cap_limit, where r = "[]"]
    by simp
  have week_pages:
    "(16 :: int) = (if DCGM_INT64_IS_BLANK dcgm_headers (val_i64 \<lparr>val_i64 = 0, val_d = 0\<rparr>) then 0
                    else sint (val_i64 \<lparr>val_i64 = (0 :: int64), val_d = 0\<rparr>))
                 + (if DCGM_INT64_IS_BLANK dcgm_headers (val_i64 \<lparr>val_i64 = 16, val_d = 0\<rparr>) then 0
                    else sint (val_i64 \<lparr>val_i64 = (16 :: int64), val_d = 0\<rparr>))"
    by (simp add: dcgm_headers_def)
  have rate: "(16 :: int) < sint (DCGM_LIMIT_MAX_RETIRED_PAGES dcgm_headers)
       \<and> \<not> DCGM_INT64_IS_BLANK dcgm_headers (val_i64 \<lparr>val_i64 = 16, val_d = 0\<rparr>)
       \<and> sint (DCGM_LIMIT_MAX_RETIRED_PAGES_SOFT_LIMIT dcgm_headers)
           < sint (val_i64 \<lparr>val_i64 = (16 :: int64), val_d = 0\<rparr>)
       \<and> DCGM_ST_OK \<in> {DCGM_ST_OK, DCGM_ST_NO_DATA}
       \<and> \<not> DCGM_INT64_IS_BLANK dcgm_headers (val_i64 \<lparr>val_i64 = w, val_d = 0\<rparr>)
       \<and> - (2 ^ 63) \<le> sint (val_i64 \<lparr>val_i64 = (16 :: int64), val_d = 0\<rparr>)
                          - sint (val_i64 \<lparr>val_i64 = w, val_d = 0\<rparr>)
       \<and> sint (val_i64 \<lparr>val_i64 = (16 :: int64), val_d = 0\<rparr>)
           - sint (val_i64 \<lparr>val_i64 = w, val_d = 0\<rparr>) < 2 ^ 63"
    if "w = 14 \<or> w = 15" for w :: int64
    using that by (auto simp: dcgm_headers_def)
  have two: "snd (MonitorMemSbeDbeRetiredPages dcgm_headers (retired_pages_proxy 0 16 14)
            DCGM_FE_GPU 0 1 0 [])
       = [\<lparr>incSystem = DCGM_HEALTH_WATCH_MEM, incHealth = DCGM_HEALTH_RESULT_FAIL,
            incCode = DCGM_FR_RETIRED_PAGES_DBE_LIMIT, incEntityGroupId = DCGM_FE_GPU,
            incEntityId = 0\<rparr>]"
    using retired_pages_cap_and_weekly_rate [OF q(1) [of 0 16 14] q(2) [of 0 16 14] ok ok
        week_pages fits16 q(3) [of 0 16 14], THEN conjunct2, rule_format,
        OF rate [of 14, OF disjI1 [OF refl]], where r = "[]"]
    by simp
  have one: "snd (MonitorMemSbeDbeRetiredPages dcgm_headers (retired_pages_proxy 0 16 15)
            DCGM_FE_GPU 0 1 0 []) = []"
    using retired_pages_cap_and_weekly_rate [OF q(1) [of 0 16 15] q(2) [of 0 16 15] ok ok
        week_pages fits16 q(3) [of 0 16 15], THEN conjunct2, rule_format,
        OF rate [of 15, OF disjI2 [OF refl]], where r = "[]"]
    by simp
  show ?thesis
    by (intro conjI) (fact q(1) [of 3 2 0] q(2) [of 3 2 0] cap_limit cap two one)+
qed

text \<open>
  Claim C5 (PCIe: a delta above the limit raises exactly one WARN). The code stores the
  64-bit delta in an \<^verbatim>\<open>int\<close> before comparing: with earliest 0 and latest 2147483648 (2^31,
  not blank) the delta is narrowed to a negative number and no incident is raised, although
  the delta is above the limit of 100. At deltas 101 and 100 the rule is as claimed.
\<close>

theorem MonitorPcie_delta_narrowed_to_int:
  "sint (abs_diff64 0 2147483648) = 2147483648
   \<and> sint (DCGM_LIMIT_MAX_PCIREPLAY_RATE dcgm_headers) = 100
   \<and> \<not> DCGM_INT64_IS_BLANK dcgm_headers 2147483648
   \<and> MonitorPcie dcgm_headers (counter_proxy DCGM_FI_DEV_PCIE_REPLAY_COUNTER 0 2147483648)
        DCGM_FE_GPU 0 0 0 [] = (DCGM_ST_OK, [])
   \<and> MonitorPcie dcgm_headers (counter_proxy DCGM_FI_DEV_PCIE_REPLAY_COUNTER 0 101)
        DCGM_FE_GPU 0 0 0 []
       = (DCGM_ST_OK,
          [\<lparr>incSystem = DCGM_HEALTH_WATCH_PCIE, incHealth = DCGM_HEALTH_RESULT_WARN,
             incCode = DCGM_FR_PCI_REPLAY_RATE, incEntityGroupId = DCGM_FE_GPU,
             incEntityId = 0\<rparr>])
   \<and> MonitorPcie dcgm_headers (counter_proxy DCGM_FI_DEV_PCIE_REPLAY_COUNTER 0 100)
        DCGM_FE_GPU 0 0 0 [] = (DCGM_ST_OK, [])"
  by code_simp

text \<open>
  Claim C3 (NVLink CRC counters: FAIL above the per-second limit, WARN at or below it). The
  code compares with \<^verbatim>\<open>>=\<close>: a CRC flit delta of 6000 over the default window of 60 seconds
  is exactly 100 per second, the value of the limit, and raises FAIL with the CRC code; a
  delta of 5999 raises WARN with the generic threshold code.
\<close>

theorem MonitorNVLink_crc_rate_at_limit:
  "real_of_int (sint (abs_diff64 0 6000))
     / (real_of_int (sint (timelib_usecSince1970 example_proxy
                            - UpdateStartTime example_proxy 0)) / 1000000)
     = DCGM_LIMIT_MAX_NVLINK_CRC_ERROR dcgm_headers
   \<and> MonitorNVLink dcgm_headers
        (counter_proxy DCGM_FI_DEV_NVLINK_CRC_FLIT_ERROR_COUNT_TOTAL 0 6000) DCGM_FE_GPU 0 0 0 []
       = (DCGM_ST_OK,
          [\<lparr>incSystem = DCGM_HEALTH_WATCH_NVLINK, incHealth = DCGM_HEALTH_RESULT_FAIL,
             incCode = DCGM_FR_NVLINK_CRC_ERROR_THRESHOLD, incEntityGroupId = DCGM_FE_GPU,
             incEntityId = 0\<rparr>])
   \<and> MonitorNVLink dcgm_headers
        (counter_proxy DCGM_FI_DEV_NVLINK_CRC_FLIT_ERROR_COUNT_TOTAL 0 5999) DCGM_FE_GPU 0 0 0 []
       = (DCGM_ST_OK,
          [\<lparr>incSystem = DCGM_HEALTH_WATCH_NVLINK, incHealth = DCGM_HEALTH_RESULT_WARN,
             incCode = DCGM_FR_NVLINK_ERROR_THRESHOLD, incEntityGroupId = DCGM_FE_GPU,
             incEntityId = 0\<rparr>])"
  by code_simp

section \<open>Start and end of the window\<close>

text \<open>
  \<^verbatim>\<open>UpdateStartTime\<close> replaces a zero start time by one minute before now; the seven
  evaluators that call it give the same result for the start 0 and for one minute before now.
  \<^verbatim>\<open>MonitorInforom\<close> assigns 0 to a zero start time and \<^verbatim>\<open>MonitorCpuPower\<close> has no start
  handling; both read only latest samples, so their results depend on neither bound.
\<close>

lemma UpdateStartTime_zero:
  "UpdateStartTime p (timelib_usecSince1970 p - oneMinuteInUsec) = UpdateStartTime p 0"
  by (simp add: UpdateStartTime_def)

lemma zero_start_window:
  "MonitorPcie K p eg eid 0 e r = MonitorPcie K p eg eid (timelib_usecSince1970 p - oneMinuteInUsec) e r"
  "MonitorMem K p hw eg eid 0 e r = MonitorMem K p hw eg eid (timelib_usecSince1970 p - oneMinuteInUsec) e r"
  "MonitorThermal K p eg eid 0 e r = MonitorThermal K p eg eid (timelib_usecSince1970 p - oneMinuteInUsec) e r"
  "MonitorPower K p eg eid 0 e r = MonitorPower K p eg eid (timelib_usecSince1970 p - oneMinuteInUsec) e r"
  "MonitorCpuThermal K p eg eid 0 e r = MonitorCpuThermal K p eg eid (timelib_usecSince1970 p - oneMinuteInUsec) e r"
  "MonitorNVLink K p eg eid 0 e r = MonitorNVLink K p eg eid (timelib_usecSince1970 p - oneMinuteInUsec) e r"
  "MonitorNvSwitchErrorCounts K p fatal eg eid 0 e r
     = MonitorNvSwitchErrorCounts K p fatal eg eid (timelib_usecSince1970 p - oneMinuteInUsec) e r"
  by (simp_all only: MonitorPcie_def MonitorMem_def MonitorThermal_def MonitorPower_def
        MonitorCpuThermal_def MonitorNVLink_def MonitorNvSwitchErrorCounts_def
        UpdateStartTime_zero)

lemma start_time_unused:
  "MonitorInforom K p eg eid s e r = MonitorInforom K p eg eid s' e' r"
  "MonitorCpuPower K p eg eid s e r = MonitorCpuPower K p eg eid s' e' r"
  by (simp_all add: MonitorInforom_def MonitorCpuPower_def Let_def)

lemma MonitorWatches_blank_times:
  "DCGM_INT64_IS_BLANK K s \<Longrightarrow> MonitorWatches K p hw g s e r = MonitorWatches K p hw g 0 e r"
  "DCGM_INT64_IS_BLANK K e \<Longrightarrow> MonitorWatches K p hw g s e r = MonitorWatches K p hw g s 0 r"
  by (simp_all add: MonitorWatches_def Let_def)

lemma fetch_fields_succeed:
  assumes "\<forall>f. fst (q f) = DCGM_ST_OK"
  shows "fetch_fields K q fs vals = Inl st \<Longrightarrow> st = DCGM_ST_OK"
  using assms
  by (induction fs arbitrary: vals) (auto simp: read_sample_def split: if_splits)

lemma MonitorNVLink_fields_succeed:
  assumes "\<forall>f s e ord. fst (GetSamples p eg eid f s e ord) = DCGM_ST_OK"
  shows "fst (MonitorNVLink_fields K p eg eid now s e fs sv ev r) = None"
  using assms
  by (induction fs arbitrary: sv ev r) (simp_all add: read_sample_def Let_def case_prod_beta)


lemma evaluators_succeed:
  assumes "all_calls_succeed p eg eid"
  shows "fst (MonitorPcie K p eg eid s e r) = DCGM_ST_OK"
    and "fst (MonitorMemVolatileDbes K p eg eid s e r) = DCGM_ST_OK"
    and "fst (MonitorMemRetiredPending K p eg eid s e r) = DCGM_ST_OK"
    and "fst (MonitorMemSbeDbeRetiredPages K p eg eid s e r) = DCGM_ST_OK"
    and "fst (MonitorMemRowRemapFailures K p eg eid s e r) = DCGM_ST_OK"
    and "fst (MonitorUncontainedErrors hw eg eid s e r) = DCGM_ST_OK"
    and "fst (MonitorInforom K p eg eid s e r) = DCGM_ST_OK"
    and "fst (MonitorThermal K p eg eid s e r) = DCGM_ST_OK"
    and "fst (MonitorPower K p eg eid s e r) = DCGM_ST_OK"
proof -
  have g: "fst (read_sample b (GetSamples p eg eid f s' e' ord)) = DCGM_ST_OK" for b f s' e' ord
    using assms by (simp add: all_calls_succeed_def read_sample_def)
  have l: "fst (read_sample b (GetLatestSample p eg eid f)) = DCGM_ST_OK" for b f
    using assms by (simp add: all_calls_succeed_def read_sample_def)
  show "fst (MonitorPcie K p eg eid s e r) = DCGM_ST_OK"
    by (simp add: MonitorPcie_def Let_def case_prod_beta g)
  show "fst (MonitorMemVolatileDbes K p eg eid s e r) = DCGM_ST_OK"
    by (simp add: MonitorMemVolatileDbes_def case_prod_beta g)
  show "fst (MonitorMemRetiredPending K p eg eid s e r) = DCGM_ST_OK"
    by (simp add: MonitorMemRetiredPending_def case_prod_beta g)
  show "fst (MonitorMemSbeDbeRetiredPages K p eg eid s e r) = DCGM_ST_OK"
    by (simp add: MonitorMemSbeDbeRetiredPages_def Let_def case_prod_beta g)
  show "fst (MonitorMemRowRemapFailures K p eg eid s e r) = DCGM_ST_OK"
    by (simp add: MonitorMemRowRemapFailures_def case_prod_beta g)
  show "fst (MonitorUncontainedErrors hw eg eid s e r) = DCGM_ST_OK"
    by (simp add: MonitorUncontainedErrors_def)
  show "fst (MonitorInforom K p eg eid s e r) = DCGM_ST_OK"
    by (simp add: MonitorInforom_def Let_def case_prod_beta l)
  show "fst (MonitorThermal K p eg eid s e r) = DCGM_ST_OK"
    by (simp add: MonitorThermal_def Let_def case_prod_beta g l)
  show "fst (MonitorPower K p eg eid s e r) = DCGM_ST_OK"
    by (simp add: MonitorPower_def Let_def case_prod_beta g)
qed

lemma MonitorMem_succeeds:
  assumes "all_calls_succeed p eg eid"
  shows "fst (MonitorMem K p hw eg eid s e r) = DCGM_ST_OK"
  by (simp add: MonitorMem_def Let_def case_prod_beta evaluators_succeed [OF assms])

lemma cpu_evaluators_succeed:
  assumes "all_calls_succeed p eg eid"
  shows "fst (MonitorCpuThermal K p eg eid s e r) = DCGM_ST_OK"
    and "fst (MonitorCpuPower K p eg eid s e r) = DCGM_ST_OK"
proof -
  have g: "\<forall>f. fst (GetSamples p eg eid f s' e' ord) = DCGM_ST_OK" for s' e' ord
    using assms by (simp add: all_calls_succeed_def)
  have l: "\<forall>f. fst (GetLatestSample p eg eid f) = DCGM_ST_OK"
    using assms by (simp add: all_calls_succeed_def)
  show "fst (MonitorCpuThermal K p eg eid s e r) = DCGM_ST_OK"
    using fetch_fields_succeed [OF g] fetch_fields_succeed [OF l]
    by (auto simp: MonitorCpuThermal_def Let_def simp del: fetch_fields.simps split: sum.splits)
  show "fst (MonitorCpuPower K p eg eid s e r) = DCGM_ST_OK"
    using fetch_fields_succeed [OF l]
    by (auto simp: MonitorCpuPower_def Let_def simp del: fetch_fields.simps split: sum.splits)
qed

lemma link_evaluators_succeed:
  assumes "all_calls_succeed p eg eid"
  shows "fst (MonitorNVLink K p eg eid s e r) = DCGM_ST_OK"
    and "fst (MonitorNvSwitchErrorCounts K p fatal eg eid s e r) = DCGM_ST_OK"
proof -
  have g: "\<forall>f s e ord. fst (GetSamples p eg eid f s e ord) = DCGM_ST_OK"
    using assms by (simp add: all_calls_succeed_def)
  have n: "fst (GetEntityNvLinkLinkStatus p g eid) = DCGM_ST_OK" for g
    using assms by (simp add: all_calls_succeed_def)
  show "fst (MonitorNVLink K p eg eid s e r) = DCGM_ST_OK"
    using MonitorNVLink_fields_succeed [OF g]
    by (simp add: MonitorNVLink_def Let_def case_prod_beta n del: MonitorNVLink_fields.simps
          split: option.splits)
  show "fst (MonitorNvSwitchErrorCounts K p fatal eg eid s e r) = DCGM_ST_OK"
    by (simp add: MonitorNvSwitchErrorCounts_def Let_def case_prod_beta n)
qed

text \<open>
  Both dispatchers hand the start time to the evaluators, so a zero start time gives the
  result of one minute before now on either path. \<^verbatim>\<open>MonitorWatches\<close> first turns a blank
  start time into zero, so there a blank start time gives that result too.
\<close>

lemma MonitorWatches_switch_zero_start:
  "MonitorWatches_switch K p hw eg eid 0 e m b ret r
     = MonitorWatches_switch K p hw eg eid (timelib_usecSince1970 p - oneMinuteInUsec) e m b ret r"
proof -
  have u: "MonitorInforom K p eg eid 0 e r'
             = MonitorInforom K p eg eid (timelib_usecSince1970 p - oneMinuteInUsec) e r'"
    "MonitorCpuPower K p eg eid 0 e r'
             = MonitorCpuPower K p eg eid (timelib_usecSince1970 p - oneMinuteInUsec) e r'" for r'
    by (rule start_time_unused)+
  show ?thesis
    by (simp only: MonitorWatches_switch_def zero_start_window u)
qed

lemma MonitorWatches_bits_zero_start:
  "MonitorWatches_bits K p hw eg eid 0 e m idxs ret r
     = MonitorWatches_bits K p hw eg eid (timelib_usecSince1970 p - oneMinuteInUsec) e m idxs ret r"
  by (induction idxs arbitrary: ret r) (simp_all add: MonitorWatches_switch_zero_start case_prod_beta)

lemma MonitorWatches_entities_zero_start:
  "MonitorWatches_entities K p hw 0 e m es ret r
     = MonitorWatches_entities K p hw (timelib_usecSince1970 p - oneMinuteInUsec) e m es ret r"
  by (induction es arbitrary: ret r) (simp_all add: MonitorWatches_bits_zero_start case_prod_beta)

lemma MonitorWatches_start_defaulted:
  "s = 0 \<or> DCGM_INT64_IS_BLANK K s \<Longrightarrow>
   MonitorWatches K p hw g s e r
     = MonitorWatches K p hw g (timelib_usecSince1970 p - oneMinuteInUsec) e r"
  by (auto simp: MonitorWatches_def Let_def MonitorWatches_entities_zero_start case_prod_beta)

lemma MonitorWatchesForGpu_switch_zero_start:
  "MonitorWatchesForGpu_switch K p hw gpuId 0 e m b r
     = MonitorWatchesForGpu_switch K p hw gpuId (timelib_usecSince1970 p - oneMinuteInUsec) e m b r"
  using start_time_unused [of K p DCGM_FE_GPU gpuId 0 e _ "timelib_usecSince1970 p - oneMinuteInUsec" e]
  by (simp add: MonitorWatchesForGpu_switch_def zero_start_window)

lemma MonitorWatchesForGpu_loop_zero_start:
  "MonitorWatchesForGpu_loop K p hw gpuId 0 e m idxs ret r
     = MonitorWatchesForGpu_loop K p hw gpuId (timelib_usecSince1970 p - oneMinuteInUsec) e m idxs
         ret r"
  by (induction idxs arbitrary: ret r) (simp_all add: MonitorWatchesForGpu_switch_zero_start case_prod_beta)

lemma MonitorWatchesForGpu_zero_start:
  "MonitorWatchesForGpu K p hw gpuId 0 e m r
     = MonitorWatchesForGpu K p hw gpuId (timelib_usecSince1970 p - oneMinuteInUsec) e m r"
  by (simp add: MonitorWatchesForGpu_def MonitorWatchesForGpu_loop_zero_start)

text \<open>
  Claim C8 (a blank or zero start time defaults to one minute before now before any samples
  are queried). \<^verbatim>\<open>MonitorWatchesForGpu\<close> has no conversion of a blank start time, and the
  evaluators test \<^verbatim>\<open>if (!startTime)\<close> only. With the PCIe bit, the blank start time
  \<^verbatim>\<open>0x7ffffffffffffff0\<close> and replay counts of 0 and 101 in the last minute, the start time 0
  and the start time one minute before now both give the PCIe warning; the blank start time
  is passed to the query as it is, the query finds no sample and no incident is raised. The
  same blank start time through \<^verbatim>\<open>MonitorWatches\<close> gives the warning.
\<close>

theorem MonitorWatchesForGpu_blank_start_not_defaulted:
  "DCGM_INT64_IS_BLANK dcgm_headers 0x7ffffffffffffff0
   \<and> timelib_usecSince1970 (window_proxy DCGM_FI_DEV_PCIE_REPLAY_COUNTER replay_samples)
        - oneMinuteInUsec = 1699999940000000
   \<and> MonitorWatchesForGpu dcgm_headers
        (window_proxy DCGM_FI_DEV_PCIE_REPLAY_COUNTER replay_samples) example_hw
        0 0 0 0x1 []
       = (DCGM_ST_OK,
          [\<lparr>incSystem = DCGM_HEALTH_WATCH_PCIE, incHealth = DCGM_HEALTH_RESULT_WARN,
             incCode = DCGM_FR_PCI_REPLAY_RATE, incEntityGroupId = DCGM_FE_GPU,
             incEntityId = 0\<rparr>])
   \<and> MonitorWatchesForGpu dcgm_headers
        (window_proxy DCGM_FI_DEV_PCIE_REPLAY_COUNTER replay_samples) example_hw
        0 1699999940000000 0 0x1 []
       = (DCGM_ST_OK,
          [\<lparr>incSystem = DCGM_HEALTH_WATCH_PCIE, incHealth = DCGM_HEALTH_RESULT_WARN,
             incCode = DCGM_FR_PCI_REPLAY_RATE, incEntityGroupId = DCGM_FE_GPU,
             incEntityId = 0\<rparr>])
   \<and> UpdateStartTime (window_proxy DCGM_FI_DEV_PCIE_REPLAY_COUNTER replay_samples)
        0x7ffffffffffffff0 = 0x7ffffffffffffff0
   \<and> GetSamples (window_proxy DCGM_FI_DEV_PCIE_REPLAY_COUNTER replay_samples) DCGM_FE_GPU 0
        DCGM_FI_DEV_PCIE_REPLAY_COUNTER 0x7ffffffffffffff0 0 DCGM_ORDER_ASCENDING
       = (DCGM_ST_NO_DATA, None)
   \<and> MonitorPcie dcgm_headers
        (window_proxy DCGM_FI_DEV_PCIE_REPLAY_COUNTER replay_samples) DCGM_FE_GPU
        0 0x7ffffffffffffff0 0 []
       = (DCGM_ST_OK, [])
   \<and> MonitorWatchesForGpu dcgm_headers
        (window_proxy DCGM_FI_DEV_PCIE_REPLAY_COUNTER replay_samples) example_hw
        0 0x7ffffffffffffff0 0 0x1 []
       = (DCGM_ST_OK, [])
   \<and> MonitorWatches dcgm_headers
        (window_proxy DCGM_FI_DEV_PCIE_REPLAY_COUNTER replay_samples)
        (example_hw\<lparr>mGroupWatchState := [1 \<mapsto> 0x1]\<rparr>) 1 0x7ffffffffffffff0 0 []
       = (DCGM_ST_OK,
          [\<lparr>incSystem = DCGM_HEALTH_WATCH_PCIE, incHealth = DCGM_HEALTH_RESULT_WARN,
             incCode = DCGM_FR_PCI_REPLAY_RATE, incEntityGroupId = DCGM_FE_GPU,
             incEntityId = 0\<rparr>])"
  by code_simp

section \<open>Absent data\<close>














text \<open>
  Three paths on which absent data does not end in success without an incident. The
  retired-pages sub-check at the cap returns the status of the SBE query: with 60 retired DBE
  pages and no data for the SBE count it raises the cap incident and returns no-data. The
  thermal evaluator returns a not-watched status of its first query. The CPU power evaluator
  tests the integer view of its double fields for blank, does not recognise the blank double
  and compares it as a reading.
\<close>

lemma MonitorMemSbeDbeRetiredPages_cap_status:
  "MonitorMemSbeDbeRetiredPages dcgm_headers
     (example_proxy\<lparr>GetSamples := (\<lambda>entityGroup eid f s e ord.
        if f = DCGM_FI_DEV_RETIRED_DBE then (DCGM_ST_OK, Some \<lparr>val_i64 = 60, val_d = 0\<rparr>)
        else (DCGM_ST_NO_DATA, None))\<rparr>) DCGM_FE_GPU 0 1 0 []
   = (DCGM_ST_NO_DATA,
      [\<lparr>incSystem = DCGM_HEALTH_WATCH_MEM, incHealth = DCGM_HEALTH_RESULT_FAIL,
         incCode = DCGM_FR_RETIRED_PAGES_LIMIT, incEntityGroupId = DCGM_FE_GPU,
         incEntityId = 0\<rparr>])"
  by code_simp

lemma MonitorThermal_not_watched_status:
  "MonitorThermal dcgm_headers
     (example_proxy\<lparr>GetSamples := (\<lambda>entityGroup eid f s e ord. (DCGM_ST_NOT_WATCHED, None))\<rparr>)
     DCGM_FE_GPU 0 0 0 [] = (DCGM_ST_NOT_WATCHED, [])"
  by code_simp

lemma MonitorCpuPower_blank_double:
  "DCGM_FP64_IS_BLANK dcgm_headers 140737488355328
   \<and> \<not> DCGM_INT64_IS_BLANK dcgm_headers 0x42E0000000000000
   \<and> MonitorCpuPower dcgm_headers blank_double_proxy DCGM_FE_CPU 0 0 0 []
       = (DCGM_ST_OK,
          [\<lparr>incSystem = DCGM_HEALTH_WATCH_POWER, incHealth = DCGM_HEALTH_RESULT_FAIL,
             incCode = DCGM_FR_FIELD_THRESHOLD_DBL, incEntityGroupId = DCGM_FE_CPU,
             incEntityId = 0\<rparr>])"
  by code_simp




end
